theory Spec2Isabelle
  imports Complex_Main
begin

section \<open>JavaScript values used by the handlers\<close>

text \<open>
  A string is a \<^typ>\<open>string\<close>: the sequence of the bytes of its UTF-8 encoding, so every
  well-formed text that a request can carry has its string here, an ASCII character is one
  \<^typ>\<open>char\<close> and any other character is several. The handlers compare strings, test them
  for emptiness and search or split them at ASCII characters, which reads the same on the
  bytes as on the characters. A value that may be \<^verbatim>\<open>undefined\<close> (a request header, a
  body field, an array element read out of range) is a \<^typ>\<open>string option\<close>, with
  \<^term>\<open>None\<close> for \<^verbatim>\<open>undefined\<close>. ObjectIds are natural numbers; two ids are equal
  exactly when their \<^verbatim>\<open>toString()\<close> renderings are.
\<close>

type_synonym oid = nat

text \<open>Truthiness of a string-or-undefined value: \<^verbatim>\<open>undefined\<close> and \<^verbatim>\<open>''\<close> are falsy.\<close>

fun truthy :: "string option \<Rightarrow> bool" where
  "truthy None = False"
| "truthy (Some s) = (s \<noteq> [])"

text \<open>\<^verbatim>\<open>a || b\<close> where \<^verbatim>\<open>a\<close> is a string or undefined and \<^verbatim>\<open>b\<close> a string.\<close>

definition or_else :: "string option \<Rightarrow> string \<Rightarrow> string" where
  "or_else a b = (case a of None \<Rightarrow> b | Some s \<Rightarrow> if s \<noteq> [] then s else b)"

text \<open>\<^verbatim>\<open>s.startsWith(p)\<close>.\<close>

definition startsWith :: "string \<Rightarrow> string \<Rightarrow> bool" where
  "startsWith s p = (take (length p) s = p)"

text \<open>\<^verbatim>\<open>s.split_js(c)\<close> for a one-character separator: the pieces between the separators,
  at least one piece, empty pieces kept.\<close>

fun split_js :: "char \<Rightarrow> string \<Rightarrow> string list" where
  "split_js c [] = [Nil]"
| "split_js c (x # xs) =
     (if x = c then [] # split_js c xs
      else (case split_js c xs of
              [] \<Rightarrow> [x # Nil]
            | w # ws \<Rightarrow> (x # w) # ws))"

text \<open>\<^verbatim>\<open>xs[i]\<close>: \<^verbatim>\<open>undefined\<close> out of range.\<close>

fun element_at :: "'a list \<Rightarrow> nat \<Rightarrow> 'a option" where
  "element_at [] i = None"
| "element_at (x # xs) 0 = Some x"
| "element_at (x # xs) (Suc i) = element_at xs i"

text \<open>
  \<^verbatim>\<open>s.trim()\<close> removes white space and line terminators from both ends. These are the
  code points U+0009 to U+000D, U+0020, U+00A0, U+1680, U+2000 to U+200A, U+2028, U+2029,
  U+202F, U+205F, U+3000 and U+FEFF; \<open>white_space\<close> lists their UTF-8 encodings. (The
  no-break space U+00A0 is the two bytes C2 A0; the byte A0 alone is no character, and
  it ends other characters, such as the two bytes C3 A0 of a grave-accented a.)
\<close>

definition white_space :: "string list" where
  "white_space =
     [CHR 0x09 # Nil, CHR 0x0A # Nil, CHR 0x0B # Nil, CHR 0x0C # Nil, CHR 0x0D # Nil,
      CHR 0x20 # Nil,
      CHR 0xC2 # CHR 0xA0 # Nil,
      CHR 0xE1 # CHR 0x9A # CHR 0x80 # Nil,
      CHR 0xE2 # CHR 0x80 # CHR 0x80 # Nil, CHR 0xE2 # CHR 0x80 # CHR 0x81 # Nil,
      CHR 0xE2 # CHR 0x80 # CHR 0x82 # Nil, CHR 0xE2 # CHR 0x80 # CHR 0x83 # Nil,
      CHR 0xE2 # CHR 0x80 # CHR 0x84 # Nil, CHR 0xE2 # CHR 0x80 # CHR 0x85 # Nil,
      CHR 0xE2 # CHR 0x80 # CHR 0x86 # Nil, CHR 0xE2 # CHR 0x80 # CHR 0x87 # Nil,
      CHR 0xE2 # CHR 0x80 # CHR 0x88 # Nil, CHR 0xE2 # CHR 0x80 # CHR 0x89 # Nil,
      CHR 0xE2 # CHR 0x80 # CHR 0x8A # Nil,
      CHR 0xE2 # CHR 0x80 # CHR 0xA8 # Nil, CHR 0xE2 # CHR 0x80 # CHR 0xA9 # Nil,
      CHR 0xE2 # CHR 0x80 # CHR 0xAF # Nil,
      CHR 0xE2 # CHR 0x81 # CHR 0x9F # Nil,
      CHR 0xE3 # CHR 0x80 # CHR 0x80 # Nil,
      CHR 0xEF # CHR 0xBB # CHR 0xBF # Nil]"

text \<open>Removing from the front of \<open>s\<close>, for as long as there is one, a non-empty member of
  \<open>ws\<close> that \<open>s\<close> starts with.\<close>

function strip :: "string list \<Rightarrow> string \<Rightarrow> string" where
  "strip ws s =
     (case find (\<lambda>w. w \<noteq> [] \<and> startsWith s w) ws of
        None \<Rightarrow> s
      | Some w \<Rightarrow> strip ws (drop (length w) s))"
  by pat_completeness auto
termination
proof (relation "measure (\<lambda>(ws, s). length s)")
  show "wf (measure (\<lambda>(ws, s). length s))" by simp
next
  fix ws :: "string list" and s w :: string
  assume "find (\<lambda>w. w \<noteq> [] \<and> startsWith s w) ws = Some w"
  then have "w \<noteq> [] \<and> startsWith s w" by (auto simp: find_Some_iff)
  then have "w \<noteq> []" and "take (length w) s = w" by (simp_all add: startsWith_def)
  then have "s \<noteq> []" by auto
  with \<open>w \<noteq> []\<close> show "((ws, drop (length w) s), (ws, s)) \<in> measure (\<lambda>(ws, s). length s)"
    by simp
qed

definition trimStart :: "string \<Rightarrow> string" where
  "trimStart s = strip white_space s"

definition trimEnd :: "string \<Rightarrow> string" where
  "trimEnd s = rev (strip (map rev white_space) (rev s))"

definition trim :: "string \<Rightarrow> string" where
  "trim s = trimEnd (trimStart s)"

text \<open>\<^verbatim>\<open>s.toLowerCase()\<close> as far as ASCII goes: the letters A to Z are lower-cased and
  every other byte is kept. (JavaScript also lower-cases letters beyond ASCII; none of
  them becomes one of the letters e, g, j, n, p or a dot, which is all that the upload
  filter looks for.)\<close>

definition lower_char :: "char \<Rightarrow> char" where
  "lower_char c =
     (if 65 \<le> (of_char c :: nat) \<and> (of_char c :: nat) \<le> 90
      then char_of ((of_char c :: nat) + 32) else c)"

definition toLowerCase :: "string \<Rightarrow> string" where
  "toLowerCase s = map lower_char s"

text \<open>Whether \<open>p\<close> occurs in \<open>s\<close> as a contiguous run of characters.\<close>

fun occurs_in :: "string \<Rightarrow> string \<Rightarrow> bool" where
  "occurs_in p [] = (p = [])"
| "occurs_in p (x # xs) = (startsWith (x # xs) p \<or> occurs_in p xs)"

text \<open>A decimal rendering of a natural number, for \<^verbatim>\<open>`${Date.now()}`\<close>.\<close>

definition digit_char :: "nat \<Rightarrow> char" where
  "digit_char d = (case element_at ''0123456789'' d of Some c \<Rightarrow> c | None \<Rightarrow> CHR ''?'')"

function decimal :: "nat \<Rightarrow> string" where
  "decimal n =
     (if n < 10 then [digit_char n]
      else decimal (n div 10) @ [digit_char (n mod 10)])"
  by pat_completeness auto
termination
  by (relation "measure (\<lambda>n. n)") auto

text \<open>
  A JavaScript number: not a number, an infinity, or a finite value (a double, read as
  the real number it stands for). \<open>or_number a b\<close> is \<^verbatim>\<open>a || b\<close>, for which
  \<^verbatim>\<open>NaN\<close> and zero are falsy; \<open>minus_finite a c\<close> is \<^verbatim>\<open>a - c\<close> and
  \<open>times_finite c a\<close> is \<^verbatim>\<open>c * a\<close> for a finite \<open>c\<close>.
\<close>

datatype number = NaN | Infinity | MinusInfinity | Finite real

definition or_number :: "number \<Rightarrow> number \<Rightarrow> number" where
  "or_number a b =
     (case a of
        NaN \<Rightarrow> b
      | Finite x \<Rightarrow> if x = 0 then b else a
      | _ \<Rightarrow> a)"

definition minus_finite :: "number \<Rightarrow> real \<Rightarrow> number" where
  "minus_finite a c = (case a of Finite x \<Rightarrow> Finite (x - c) | _ \<Rightarrow> a)"

definition times_finite :: "real \<Rightarrow> number \<Rightarrow> number" where
  "times_finite c a =
     (case a of
        NaN \<Rightarrow> NaN
      | Finite x \<Rightarrow> Finite (c * x)
      | Infinity \<Rightarrow> if 0 < c then Infinity else if c < 0 then MinusInfinity else NaN
      | MinusInfinity \<Rightarrow> if 0 < c then MinusInfinity else if c < 0 then Infinity else NaN)"

section \<open>JSON bodies and responses\<close>

datatype json =
    JNull
  | JBool bool
  | JNum int
  | JReal real
  | JStr string
  | JArr "json list"
  | JObj "(string \<times> json) list"

text \<open>A number in a body: a whole number is a \<open>JNum\<close>, any other finite number a
  \<open>JReal\<close>, and \<^verbatim>\<open>JSON.stringify\<close> writes \<^verbatim>\<open>null\<close> for the rest.\<close>

definition number_json :: "number \<Rightarrow> json" where
  "number_json a =
     (case a of
        Finite x \<Rightarrow> if x = of_int \<lfloor>x\<rfloor> then JNum \<lfloor>x\<rfloor> else JReal x
      | _ \<Rightarrow> JNull)"

text \<open>Whether a JSON value has, at any depth, an object field named \<open>k\<close>.\<close>

fun has_field :: "string \<Rightarrow> json \<Rightarrow> bool" where
  "has_field k (JArr xs) = list_ex (has_field k) xs"
| "has_field k (JObj kvs) = list_ex (\<lambda>kv. fst kv = k \<or> has_field k (snd kv)) kvs"
| "has_field k _ = False"

text \<open>
  The Express response object: \<^verbatim>\<open>res.status(c)\<close> stores the status code (200 until
  set) and \<^verbatim>\<open>res.json(j)\<close> sends the body with the status stored at that moment.
\<close>

record res =
  statusCode :: nat
  sent :: "json option"

definition res0 :: res where
  "res0 = \<lparr>statusCode = 200, sent = None\<rparr>"

definition res_status :: "nat \<Rightarrow> res \<Rightarrow> res" where
  "res_status c r = r\<lparr>statusCode := c\<rparr>"

definition res_json :: "json \<Rightarrow> res \<Rightarrow> res" where
  "res_json j r = r\<lparr>sent := Some j\<rparr>"

text \<open>A thrown \<^verbatim>\<open>Error\<close>: its \<^verbatim>\<open>name\<close>, its \<^verbatim>\<open>message\<close>, and for a Mongoose
  validation error the messages of \<^verbatim>\<open>error.errors\<close>.\<close>

record js_error =
  err_name :: string
  err_message :: string
  err_errors :: "string list"
  err_stack :: string

definition Error :: "string \<Rightarrow> js_error" where
  "Error m = \<lparr>err_name = ''Error'', err_message = m, err_errors = [], err_stack = []\<rparr>"

text \<open>What reaches Express through \<^verbatim>\<open>next(err)\<close>: an error object, or the bare string
  that the upload filter passes to its callback.\<close>

datatype thrown = ThrownString string | ThrownError js_error

definition message_json :: "string \<Rightarrow> json" where
  "message_json m = JObj [(''message'', JStr m)]"

section \<open>Documents and the store\<close>

text \<open>
  Modelled from the spec: the User and Post schemas (\<^verbatim>\<open>models/userModel.js\<close> and
  \<^verbatim>\<open>models/postModel.js\<close> are not among the sources). The fields are those the handlers
  read and write. The \<open>password\<close> of a stored user is its hash; \<^term>\<open>None\<close> is a document
  loaded with \<^verbatim>\<open>.select('-password')\<close>, which has no such field.
\<close>

record user =
  uid :: oid
  username :: string
  email :: string
  password :: "string option"
  profilePicture :: string
  bio :: string

record comment =
  ctext :: "string option"
  cuser :: oid
  ccreatedAt :: nat

record post =
  pid :: oid
  title :: string
  content :: string
  author :: oid
  tags :: "string list"
  image_url :: string
  comments :: "comment list"
  likes :: "oid list"
  createdAt :: nat

record db =
  users :: "user list"
  posts :: "post list"

text \<open>\<^verbatim>\<open>User.findById\<close>, \<^verbatim>\<open>Post.findById\<close>: the document with that id, or \<^verbatim>\<open>null\<close>.\<close>

definition User_findById :: "db \<Rightarrow> oid \<Rightarrow> user option" where
  "User_findById d i = find (\<lambda>u. uid u = i) (users d)"

definition Post_findById :: "db \<Rightarrow> oid \<Rightarrow> post option" where
  "Post_findById d i = find (\<lambda>p. pid p = i) (posts d)"

text \<open>\<^verbatim>\<open>.select('-password')\<close>.\<close>

definition select_no_password :: "user \<Rightarrow> user" where
  "select_no_password u = u\<lparr>password := None\<rparr>"

text \<open>
  What the handlers call but do not define: the token library, the password check and
  the hashing hook of the user schema, the store's case-insensitive regular-expression
  match (\<^term>\<open>None\<close> for a pattern that is not a regular expression), the error (if
  any) with which the store refuses to save a document (schema validation, unique
  indexes), what the store does with a skip value other than a whole number that is
  not negative (it refuses it, or skips some number of documents), and whether the
  process runs in the development configuration.
\<close>

record env =
  jwt_verify :: "string \<Rightarrow> js_error + oid"
  jwt_sign :: "oid \<Rightarrow> string"
  matchPassword :: "user \<Rightarrow> string \<Rightarrow> bool"
  hash_password :: "string \<Rightarrow> string"
  regex_i :: "string \<Rightarrow> (string \<Rightarrow> bool) option"
  user_error :: "user list \<Rightarrow> user \<Rightarrow> js_error option"
  post_error :: "post \<Rightarrow> js_error option"
  skip_irregular :: "number \<Rightarrow> js_error + nat"
  development :: bool

text \<open>\<^verbatim>\<open>doc.save()\<close> of a loaded document: throws, or replaces the stored document of
  the same id.\<close>

definition save_post :: "env \<Rightarrow> db \<Rightarrow> post \<Rightarrow> js_error + db" where
  "save_post e d p =
     (case post_error e p of
        Some err \<Rightarrow> Inl err
      | None \<Rightarrow> Inr (d\<lparr>posts := map (\<lambda>q. if pid q = pid p then p else q) (posts d)\<rparr>))"

definition save_user :: "env \<Rightarrow> db \<Rightarrow> user \<Rightarrow> js_error + db" where
  "save_user e d u =
     (case user_error e (users d) u of
        Some err \<Rightarrow> Inl err
      | None \<Rightarrow> Inr (d\<lparr>users := map (\<lambda>q. if uid q = uid u then u else q) (users d)\<rparr>))"

text \<open>A fresh ObjectId for a created document.\<close>

definition fresh_oid :: "oid list \<Rightarrow> oid" where
  "fresh_oid ids = Suc (fold max ids 0)"

subsection \<open>Serialisation\<close>

definition ref_json :: "oid \<Rightarrow> json" where
  "ref_json i = JNum (int i)"

definition user_json :: "user \<Rightarrow> json" where
  "user_json u = JObj
     ([(''_id'', ref_json (uid u)), (''username'', JStr (username u)),
       (''email'', JStr (email u))]
      @ (case password u of None \<Rightarrow> [] | Some h \<Rightarrow> [(''password'', JStr h)])
      @ [(''profilePicture'', JStr (profilePicture u)), (''bio'', JStr (bio u))])"

text \<open>\<^verbatim>\<open>.populate(path, 'username profilePicture')\<close>: the reference is replaced by the
  selected fields of the user it names, or by \<^verbatim>\<open>null\<close> when there is none.\<close>

definition populate_user :: "db \<Rightarrow> oid \<Rightarrow> json" where
  "populate_user d i =
     (case User_findById d i of
        None \<Rightarrow> JNull
      | Some u \<Rightarrow> JObj [(''_id'', ref_json (uid u)), (''username'', JStr (username u)),
                         (''profilePicture'', JStr (profilePicture u))])"

definition comment_json :: "(oid \<Rightarrow> json) \<Rightarrow> comment \<Rightarrow> json" where
  "comment_json cu c = JObj
     ((case ctext c of None \<Rightarrow> [] | Some t \<Rightarrow> [(''text'', JStr t)])
      @ [(''user'', cu (cuser c)), (''createdAt'', JNum (int (ccreatedAt c)))])"

definition comments_json :: "(oid \<Rightarrow> json) \<Rightarrow> post \<Rightarrow> json" where
  "comments_json cu p = JArr (map (comment_json cu) (comments p))"

definition likes_json :: "post \<Rightarrow> json" where
  "likes_json p = JArr (map ref_json (likes p))"

definition post_json :: "(oid \<Rightarrow> json) \<Rightarrow> (oid \<Rightarrow> json) \<Rightarrow> post \<Rightarrow> json" where
  "post_json au cu p = JObj
     [(''_id'', ref_json (pid p)), (''title'', JStr (title p)), (''content'', JStr (content p)),
      (''author'', au (author p)), (''tags'', JArr (map JStr (tags p))),
      (''image'', JStr (image_url p)), (''comments'', comments_json cu p),
      (''likes'', likes_json p), (''createdAt'', JNum (int (createdAt p)))]"

section \<open>Requests\<close>

record upload =
  originalname :: string
  mimetype :: string
  file_size :: nat

text \<open>
  A request: the \<^verbatim>\<open>Authorization\<close> header, \<^verbatim>\<open>req.params.id\<close> (a well-formed
  ObjectId), the text fields of \<^verbatim>\<open>req.body\<close>, \<^verbatim>\<open>Number(req.query.page)\<close>
  (\<^verbatim>\<open>NaN\<close> when the query has no page or none that reads as a number),
  \<^verbatim>\<open>req.query.keyword\<close>, the uploaded file part if any,
  and the clock reading \<^verbatim>\<open>Date.now()\<close> used for file names and creation times.
\<close>

record req =
  authorization :: "string option"
  params_id :: oid
  body :: "string \<Rightarrow> string option"
  page_number :: number
  keyword :: "string option"
  req_file :: "upload option"
  now :: nat

section \<open>Auth Guard (middleware/authMiddleware.js)\<close>

text \<open>
  \<^verbatim>\<open>protect\<close>: \<^term>\<open>Inr u\<close> is \<^verbatim>\<open>req.user = u; next()\<close>, \<^term>\<open>Inl r\<close> is the response
  sent instead, after which the handler does not run. \<^verbatim>\<open>jwt.verify\<close> throws
  \<^verbatim>\<open>jwt must be provided\<close> on an \<^verbatim>\<open>undefined\<close> or empty token.
\<close>

definition verify :: "env \<Rightarrow> string option \<Rightarrow> js_error + oid" where
  "verify e token =
     (case token of
        None \<Rightarrow> Inl (Error ''jwt must be provided'')
      | Some t \<Rightarrow> if t = [] then Inl (Error ''jwt must be provided'') else jwt_verify e t)"

definition protect_try :: "env \<Rightarrow> db \<Rightarrow> string \<Rightarrow> js_error + user" where
  "protect_try e d hdr =
     (let token = element_at (split_js CHR '' '' hdr) 1 in
      case verify e token of
        Inl err \<Rightarrow> Inl err
      | Inr i \<Rightarrow>
          (case map_option select_no_password (User_findById d i) of
             None \<Rightarrow> Inl (Error ''User not found'')
           | Some u \<Rightarrow> Inr u))"

definition protect :: "env \<Rightarrow> db \<Rightarrow> req \<Rightarrow> res + user" where
  "protect e d r =
     (case authorization r of
        None \<Rightarrow> Inl (res_json (message_json ''Not authorized, no token'') (res_status 401 res0))
      | Some hdr \<Rightarrow>
          if hdr \<noteq> [] \<and> startsWith hdr ''Bearer'' then
            (case protect_try e d hdr of
               Inl err \<Rightarrow>
                 Inl (res_json (JObj [(''message'', JStr ''Not authorized, token failed''),
                                      (''error'', JStr (err_message err))])
                        (res_status 401 res0))
             | Inr u \<Rightarrow> Inr u)
          else Inl (res_json (message_json ''Not authorized, no token'') (res_status 401 res0)))"

section \<open>Upload Ingestor (the multer configuration of both routers)\<close>

text \<open>
  \<^verbatim>\<open>path.extname\<close> of Node (POSIX flavour), as its library computes it: one pass from
  the end of the path over the last path component, recording the last dot
  (\<open>startDot\<close>), the end of the component (\<open>end\<close>), the start of the component
  (\<open>startPart\<close>) and whether a character other than a dot stands before that dot
  (\<open>preDotState\<close>). The counter of \<open>extname_loop\<close> is the loop index plus one.
\<close>

record ext_state =
  startDot :: int
  startPart :: int
  end_pos :: int
  matchedSlash :: bool
  preDotState :: int

fun extname_loop :: "string \<Rightarrow> nat \<Rightarrow> ext_state \<Rightarrow> ext_state" where
  "extname_loop path 0 s = s"
| "extname_loop path (Suc i) s =
     (if path ! i = CHR ''/'' then
        (if \<not> matchedSlash s then s\<lparr>startPart := int i + 1\<rparr>
         else extname_loop path i s)
      else
        (let s1 = (if end_pos s = - 1 then s\<lparr>end_pos := int i + 1, matchedSlash := False\<rparr>
                   else s);
             s2 = (if path ! i = CHR ''.'' then
                     (if startDot s1 = - 1 then s1\<lparr>startDot := int i\<rparr>
                      else if preDotState s1 \<noteq> 1 then s1\<lparr>preDotState := 1\<rparr>
                      else s1)
                   else if startDot s1 \<noteq> - 1 then s1\<lparr>preDotState := - 1\<rparr>
                   else s1)
         in extname_loop path i s2))"

definition slice :: "string \<Rightarrow> int \<Rightarrow> int \<Rightarrow> string" where
  "slice s a b = take (nat b - nat a) (drop (nat a) s)"

definition extname :: "string \<Rightarrow> string" where
  "extname path =
     (let s = extname_loop path (length path)
                \<lparr>startDot = - 1, startPart = 0, end_pos = - 1, matchedSlash = True,
                 preDotState = 0\<rparr>
      in if startDot s = - 1 \<or> end_pos s = - 1 \<or> preDotState s = 0 \<or>
            (preDotState s = 1 \<and> startDot s = end_pos s - 1 \<and> startDot s = startPart s + 1)
         then [] else slice path (startDot s) (end_pos s))"

text \<open>\<^verbatim>\<open>/jpeg|jpg|png/.test(s)\<close>: the pattern has no anchors, so it matches wherever one
  of the three words occurs in \<open>s\<close>.\<close>

definition filetypes_test :: "string \<Rightarrow> bool" where
  "filetypes_test s = (occurs_in ''jpeg'' s \<or> occurs_in ''jpg'' s \<or> occurs_in ''png'' s)"

text \<open>The \<^verbatim>\<open>fileFilter\<close> of the post router: \<^term>\<open>Inr True\<close> is \<^verbatim>\<open>cb(null, true)\<close>,
  \<^term>\<open>Inl m\<close> is \<^verbatim>\<open>cb(m)\<close>.\<close>

definition post_fileFilter :: "upload \<Rightarrow> string + bool" where
  "post_fileFilter f =
     (let extname_ok = filetypes_test (toLowerCase (extname (originalname f)));
          mimetype_ok = filetypes_test (mimetype f)
      in if extname_ok \<and> mimetype_ok then Inr True else Inl ''Error: Images only!'')"

text \<open>The \<^verbatim>\<open>fileFilter\<close> of the user router.\<close>

definition user_fileFilter :: "upload \<Rightarrow> string + bool" where
  "user_fileFilter f =
     (let extname_ok = filetypes_test (toLowerCase (extname (originalname f)));
          mimetype_ok = filetypes_test (mimetype f)
      in if extname_ok \<and> mimetype_ok then Inr True else Inl ''Error: Images only!'')"

text \<open>
  \<^verbatim>\<open>upload.single(field)\<close>: without a file part the handler runs with no \<^verbatim>\<open>req.file\<close>;
  a part refused by the filter, or larger than \<^verbatim>\<open>1024 * 1024 * 5\<close> bytes, goes to
  \<^verbatim>\<open>next(err)\<close>; otherwise \<^verbatim>\<open>req.file.filename\<close> is the generated name.
\<close>

definition fileSize_limit :: nat where
  "fileSize_limit = 1024 * 1024 * 5"

definition upload_single ::
  "string \<Rightarrow> (upload \<Rightarrow> string + bool) \<Rightarrow> req \<Rightarrow> thrown + string option" where
  "upload_single prefix fileFilter r =
     (case req_file r of
        None \<Rightarrow> Inr None
      | Some f \<Rightarrow>
          (case fileFilter f of
             Inl m \<Rightarrow> Inl (ThrownString m)
           | Inr _ \<Rightarrow>
               if file_size f > fileSize_limit
               then Inl (ThrownError
                      \<lparr>err_name = ''MulterError'', err_message = ''File too large'',
                       err_errors = [], err_stack = ''MulterError: File too large''\<rparr>)
               else Inr (Some (prefix @ ''-'' @ decimal (now r) @ extname (originalname f)))))"

text \<open>The error-handling middleware of \<^verbatim>\<open>server.js\<close>. None of the values that reach
  it has a \<^verbatim>\<open>statusCode\<close>, so the status is 500; a field whose value is
  \<^verbatim>\<open>undefined\<close> is left out of the JSON.\<close>

definition error_middleware :: "env \<Rightarrow> thrown \<Rightarrow> res" where
  "error_middleware e t =
     (case t of
        ThrownString m \<Rightarrow>
          res_json (JObj (if development e then [] else [(''stack'', JNull)]))
            (res_status 500 res0)
      | ThrownError err \<Rightarrow>
          res_json (JObj [(''message'', JStr (err_message err)),
                          (''stack'', if development e then JStr (err_stack err) else JNull)])
            (res_status 500 res0))"

section \<open>Post routes\<close>

text \<open>
  A handler body is a \<^verbatim>\<open>try\<close> block: \<^term>\<open>Inr (r, d)\<close> is the response it sent and the
  store it leaves, \<^term>\<open>Inl (err, r)\<close> is the error it threw together with the response
  object as it was at the throw (a status set by \<^verbatim>\<open>res.status\<close>, nothing sent), which
  the \<^verbatim>\<open>catch\<close> block then completes. A document changed in memory reaches the store
  only through \<^verbatim>\<open>save()\<close>.
\<close>

type_synonym attempt = "(js_error \<times> res) + (res \<times> db)"

subsection \<open>PUT /api/posts/:id\<close>

text \<open>The assignments the handler makes to the loaded post, in its order.\<close>

definition assign_post :: "req \<Rightarrow> string option \<Rightarrow> post \<Rightarrow> post" where
  "assign_post r filename post =
     (let post1 = post\<lparr>title := or_else (body r ''title'') (title post)\<rparr>;
          post2 = post1\<lparr>content := or_else (body r ''content'') (content post1)\<rparr>;
          post3 = (case body r ''tags'' of
                     None \<Rightarrow> post2
                   | Some t \<Rightarrow>
                       if t \<noteq> [] then post2\<lparr>tags := map trim (split_js CHR '','' t)\<rparr>
                       else post2);
          post4 = (case filename of
                     None \<Rightarrow> post3
                   | Some f \<Rightarrow> post3\<lparr>image_url := ''/uploads/posts/'' @ f\<rparr>)
      in post4)"

definition put_post_try :: "env \<Rightarrow> db \<Rightarrow> req \<Rightarrow> user \<Rightarrow> string option \<Rightarrow> attempt" where
  "put_post_try e d r u filename =
     (case Post_findById d (params_id r) of
        Some post \<Rightarrow>
          if author post \<noteq> uid u
          then Inl (Error ''Not authorized to update this post'', res_status 401 res0)
          else
            (let post4 = assign_post r filename post
             in case save_post e d post4 of
                  Inl err \<Rightarrow> Inl (err, res0)
                | Inr d' \<Rightarrow> Inr (res_json (post_json ref_json ref_json post4) res0, d'))
      | None \<Rightarrow> Inl (Error ''Post not found'', res_status 404 res0))"

definition put_post :: "env \<Rightarrow> db \<Rightarrow> req \<Rightarrow> user \<Rightarrow> string option \<Rightarrow> res \<times> db" where
  "put_post e d r u filename =
     (case put_post_try e d r u filename of
        Inl (err, r1) \<Rightarrow> (res_json (message_json (err_message err)) (res_status 400 r1), d)
      | Inr ok \<Rightarrow> ok)"

subsection \<open>DELETE /api/posts/:id\<close>

text \<open>\<^verbatim>\<open>Post.findByIdAndDelete\<close>: the deleted document (or \<^verbatim>\<open>null\<close>) and the store
  without it.\<close>

definition Post_findByIdAndDelete :: "db \<Rightarrow> oid \<Rightarrow> post option \<times> db" where
  "Post_findByIdAndDelete d i =
     (Post_findById d i, d\<lparr>posts := filter (\<lambda>p. pid p \<noteq> i) (posts d)\<rparr>)"

definition delete_post :: "env \<Rightarrow> db \<Rightarrow> req \<Rightarrow> user \<Rightarrow> res \<times> db" where
  "delete_post e d r u =
     (case Post_findById d (params_id r) of
        None \<Rightarrow> (res_json (message_json ''Post not found'') (res_status 404 res0), d)
      | Some post \<Rightarrow>
          if author post \<noteq> uid u
          then (res_json (message_json ''Not authorized to delete this post'')
                  (res_status 401 res0), d)
          else
            (case Post_findByIdAndDelete d (params_id r) of
               (Some deletedPost, d') \<Rightarrow>
                 (res_json (JObj [(''message'', JStr ''Post deleted successfully''),
                                  (''postId'', ref_json (pid deletedPost))])
                    (res_status 200 res0), d')
             | (None, d') \<Rightarrow>
                 (res_json (message_json ''Post not found during deletion'')
                    (res_status 404 res0), d')))"

subsection \<open>POST /api/posts/:id/comments\<close>

definition add_comment_try :: "env \<Rightarrow> db \<Rightarrow> req \<Rightarrow> user \<Rightarrow> attempt" where
  "add_comment_try e d r u =
     (case Post_findById d (params_id r) of
        Some post \<Rightarrow>
          (let comment = \<lparr>ctext = body r ''text'', cuser = uid u, ccreatedAt = now r\<rparr>;
               post1 = post\<lparr>comments := comments post @ [comment]\<rparr>
           in case save_post e d post1 of
                Inl err \<Rightarrow> Inl (err, res0)
              | Inr d' \<Rightarrow>
                  (case Post_findById d' (params_id r) of
                     None \<Rightarrow> Inl (Error ''Cannot read properties of null'', res0)
                   | Some updatedPost \<Rightarrow>
                       Inr (res_json (comments_json (populate_user d') updatedPost)
                              (res_status 201 res0), d')))
      | None \<Rightarrow> Inl (Error ''Post not found'', res_status 404 res0))"

definition add_comment :: "env \<Rightarrow> db \<Rightarrow> req \<Rightarrow> user \<Rightarrow> res \<times> db" where
  "add_comment e d r u =
     (case add_comment_try e d r u of
        Inl (err, r1) \<Rightarrow> (res_json (message_json (err_message err)) (res_status 400 r1), d)
      | Inr ok \<Rightarrow> ok)"

subsection \<open>PATCH /api/posts/:id/like\<close>

text \<open>\<^verbatim>\<open>xs.findIndex(pred)\<close>: the first position whose element satisfies \<open>pred\<close>,
  or \<open>-1\<close>.\<close>

fun findIndex :: "('a \<Rightarrow> bool) \<Rightarrow> 'a list \<Rightarrow> int" where
  "findIndex P [] = - 1"
| "findIndex P (x # xs) =
     (if P x then 0 else (let i = findIndex P xs in if i = - 1 then - 1 else i + 1))"

text \<open>The change the handler makes to \<^verbatim>\<open>post.likes\<close> for the caller \<open>me\<close>.\<close>

definition toggle_likes :: "oid \<Rightarrow> oid list \<Rightarrow> oid list" where
  "toggle_likes me ls =
     (let index = findIndex (\<lambda>i. i = me) ls
      in if index = - 1 then ls @ [me] else filter (\<lambda>i. i \<noteq> me) ls)"

definition like_post_try :: "env \<Rightarrow> db \<Rightarrow> req \<Rightarrow> user \<Rightarrow> attempt" where
  "like_post_try e d r u =
     (case Post_findById d (params_id r) of
        None \<Rightarrow> Inr (res_json (message_json ''Post not found'') (res_status 404 res0), d)
      | Some post \<Rightarrow>
          (let post1 = post\<lparr>likes := toggle_likes (uid u) (likes post)\<rparr>
           in case save_post e d post1 of
                Inl err \<Rightarrow> Inl (err, res0)
              | Inr d' \<Rightarrow> Inr (res_json (likes_json post1) res0, d')))"

definition like_post :: "env \<Rightarrow> db \<Rightarrow> req \<Rightarrow> user \<Rightarrow> res \<times> db" where
  "like_post e d r u =
     (case like_post_try e d r u of
        Inl (err, r1) \<Rightarrow> (res_json (message_json (err_message err)) (res_status 400 r1), d)
      | Inr ok \<Rightarrow> ok)"

subsection \<open>GET /api/posts\<close>

text \<open>
  \<^verbatim>\<open>Post.find(filter).sort({createdAt: -1}).limit(l).skip(k)\<close>: the store orders the
  matching documents by descending creation time, skips \<open>k\<close> of them and returns at most
  \<open>l\<close> of the rest, whatever the order in which \<^verbatim>\<open>limit\<close> and \<^verbatim>\<open>skip\<close> were
  called. It refuses a negative \<open>k\<close>; what it does with a \<open>k\<close> that is a fraction or
  infinite is \<open>skip_irregular\<close>.
\<close>

definition matching :: "(post \<Rightarrow> bool) \<Rightarrow> db \<Rightarrow> post list" where
  "matching f d = sort_key (\<lambda>p. - int (createdAt p)) (filter f (posts d))"

definition skip_count :: "env \<Rightarrow> number \<Rightarrow> js_error + nat" where
  "skip_count e k =
     (case k of
        Finite x \<Rightarrow>
          if x < 0 then Inl (Error ''Skip value must be non-negative'')
          else if x = of_int \<lfloor>x\<rfloor> then Inr (nat \<lfloor>x\<rfloor>)
          else skip_irregular e k
      | MinusInfinity \<Rightarrow> Inl (Error ''Skip value must be non-negative'')
      | _ \<Rightarrow> skip_irregular e k)"

definition Post_find ::
  "env \<Rightarrow> (post \<Rightarrow> bool) \<Rightarrow> nat \<Rightarrow> number \<Rightarrow> db \<Rightarrow> js_error + post list" where
  "Post_find e f l k d =
     (case skip_count e k of
        Inl err \<Rightarrow> Inl err
      | Inr n \<Rightarrow> Inr (take l (drop n (matching f d))))"

definition Post_countDocuments :: "(post \<Rightarrow> bool) \<Rightarrow> db \<Rightarrow> nat" where
  "Post_countDocuments f d = length (filter f (posts d))"

text \<open>\<^verbatim>\<open>Number(req.query.page) || 1\<close>.\<close>

definition page_of :: "req \<Rightarrow> number" where
  "page_of r = or_number (page_number r) (Finite 1)"

text \<open>The filter built from \<^verbatim>\<open>req.query.keyword\<close>: a post matches when its title or its
  content does; without a keyword every post matches.\<close>

definition keyword_filter :: "env \<Rightarrow> req \<Rightarrow> js_error + (post \<Rightarrow> bool)" where
  "keyword_filter e r =
     (if truthy (keyword r) then
        (case regex_i e (or_else (keyword r) []) of
           None \<Rightarrow> Inl (Error ''Regular expression is invalid'')
         | Some m \<Rightarrow> Inr (\<lambda>p. m (title p) \<or> m (content p)))
      else Inr (\<lambda>p. True))"

definition pageSize :: nat where
  "pageSize = 10"

text \<open>\<^verbatim>\<open>Math.ceil(count / pageSize)\<close>.\<close>

definition pages_of :: "nat \<Rightarrow> int" where
  "pages_of count = \<lceil>real count / real pageSize\<rceil>"

definition list_posts_try :: "env \<Rightarrow> db \<Rightarrow> req \<Rightarrow> attempt" where
  "list_posts_try e d r =
     (let page = page_of r in
      case keyword_filter e r of
        Inl err \<Rightarrow> Inl (err, res0)
      | Inr f \<Rightarrow>
          (let count = Post_countDocuments f d in
           case Post_find e f pageSize (times_finite (real pageSize) (minus_finite page 1)) d of
             Inl err \<Rightarrow> Inl (err, res0)
           | Inr found \<Rightarrow>
               Inr (res_json
                      (JObj [(''posts'', JArr (map (post_json (populate_user d) ref_json) found)),
                             (''page'', number_json page),
                             (''pages'', JNum (pages_of count)),
                             (''total'', JNum (int count))])
                      res0, d)))"

definition list_posts :: "env \<Rightarrow> db \<Rightarrow> req \<Rightarrow> res \<times> db" where
  "list_posts e d r =
     (case list_posts_try e d r of
        Inl (err, r1) \<Rightarrow> (res_json (message_json (err_message err)) (res_status 400 r1), d)
      | Inr ok \<Rightarrow> ok)"

subsection \<open>GET /api/posts/:id\<close>

definition get_post_try :: "env \<Rightarrow> db \<Rightarrow> req \<Rightarrow> attempt" where
  "get_post_try e d r =
     (case Post_findById d (params_id r) of
        Some post \<Rightarrow>
          Inr (res_json (post_json (populate_user d) (populate_user d) post) res0, d)
      | None \<Rightarrow> Inl (Error ''Post not found'', res_status 404 res0))"

definition get_post :: "env \<Rightarrow> db \<Rightarrow> req \<Rightarrow> res \<times> db" where
  "get_post e d r =
     (case get_post_try e d r of
        Inl (err, r1) \<Rightarrow> (res_json (message_json (err_message err)) (res_status 404 r1), d)
      | Inr ok \<Rightarrow> ok)"

subsection \<open>POST /api/posts\<close>

text \<open>\<^verbatim>\<open>error.toString()\<close>. The handler also makes sure that the upload directory
  exists; the file system is not part of this model.\<close>

definition error_toString :: "js_error \<Rightarrow> string" where
  "error_toString err = err_name err @ '': '' @ err_message err"

definition create_post_try :: "env \<Rightarrow> db \<Rightarrow> req \<Rightarrow> user \<Rightarrow> string option \<Rightarrow> attempt" where
  "create_post_try e d r u filename =
     (if \<not> truthy (body r ''title'') \<or> \<not> truthy (body r ''content'')
      then Inr (res_json (message_json ''Title and content are required'')
                  (res_status 400 res0), d)
      else
        (let post = \<lparr>pid = fresh_oid (map pid (posts d)),
                     title = or_else (body r ''title'') [],
                     content = or_else (body r ''content'') [],
                     author = uid u,
                     tags = (case body r ''tags'' of
                               None \<Rightarrow> []
                             | Some t \<Rightarrow>
                                 if t \<noteq> [] then map trim (split_js CHR '','' t) else []),
                     image_url = (case filename of
                                    None \<Rightarrow> []
                                  | Some f \<Rightarrow> ''/uploads/posts/'' @ f),
                     comments = [], likes = [], createdAt = now r\<rparr>
         in case post_error e post of
              Some err \<Rightarrow> Inl (err, res0)
            | None \<Rightarrow>
                (let d' = d\<lparr>posts := posts d @ [post]\<rparr> in
                 case Post_findById d' (pid post) of
                   None \<Rightarrow> Inr (res_json JNull (res_status 201 res0), d')
                 | Some populatedPost \<Rightarrow>
                     Inr (res_json (post_json (populate_user d') ref_json populatedPost)
                            (res_status 201 res0), d'))))"

definition create_post :: "env \<Rightarrow> db \<Rightarrow> req \<Rightarrow> user \<Rightarrow> string option \<Rightarrow> res \<times> db" where
  "create_post e d r u filename =
     (case create_post_try e d r u filename of
        Inl (err, r1) \<Rightarrow>
          if err_name err = ''ValidationError''
          then (res_json (JObj [(''message'', JStr ''Validation error''),
                                (''errors'', JArr (map JStr (err_errors err)))])
                  (res_status 400 r1), d)
          else (res_json (JObj [(''message'', JStr ''Failed to create post''),
                                (''error'', JStr (error_toString err))])
                  (res_status 500 r1), d)
      | Inr ok \<Rightarrow> ok)"

section \<open>User routes\<close>

text \<open>\<^verbatim>\<open>generateToken(id)\<close>.\<close>

definition generateToken :: "env \<Rightarrow> oid \<Rightarrow> string" where
  "generateToken e i = jwt_sign e i"

subsection \<open>POST /api/users/register\<close>

text \<open>
  Modelled from the spec: \<^verbatim>\<open>User.create\<close> stores the password as its one-way hash
  (the schema's save hook is in \<^verbatim>\<open>models/userModel.js\<close>, not among the sources), with
  an empty profile picture and bio.
\<close>

definition User_create :: "env \<Rightarrow> db \<Rightarrow> string \<Rightarrow> string \<Rightarrow> string \<Rightarrow> js_error + (user \<times> db)" where
  "User_create e d un em pw =
     (let u = \<lparr>uid = fresh_oid (map uid (users d)), username = un, email = em,
                password = Some (hash_password e pw), profilePicture = [], bio = []\<rparr>
      in case user_error e (users d) u of
           Some err \<Rightarrow> Inl err
         | None \<Rightarrow> Inr (u, d\<lparr>users := users d @ [u]\<rparr>))"

definition register_try :: "env \<Rightarrow> db \<Rightarrow> req \<Rightarrow> attempt" where
  "register_try e d r =
     (if \<not> truthy (body r ''username'') \<or> \<not> truthy (body r ''email'')
         \<or> \<not> truthy (body r ''password'')
      then Inr (res_json (message_json ''Please provide all required fields'')
                  (res_status 400 res0), d)
      else
        (let un = or_else (body r ''username'') [];
             em = or_else (body r ''email'') [];
             pw = or_else (body r ''password'') []
         in case find (\<lambda>x. email x = em \<or> username x = un) (users d) of
              Some userExists \<Rightarrow>
                Inr (res_json
                       (message_json (if email userExists = em then ''Email already registered''
                                      else ''Username already taken''))
                       (res_status 400 res0), d)
            | None \<Rightarrow>
                (case User_create e d un em pw of
                   Inl err \<Rightarrow> Inl (err, res0)
                 | Inr (u, d') \<Rightarrow>
                     Inr (res_json
                            (JObj [(''_id'', ref_json (uid u)), (''username'', JStr (username u)),
                                   (''email'', JStr (email u)),
                                   (''token'', JStr (generateToken e (uid u)))])
                            (res_status 201 res0), d'))))"

definition register :: "env \<Rightarrow> db \<Rightarrow> req \<Rightarrow> res \<times> db" where
  "register e d r =
     (case register_try e d r of
        Inl (err, r1) \<Rightarrow>
          (res_json (JObj [(''message'', JStr (or_else (Some (err_message err))
                                                ''Registration failed'')),
                           (''error'', JStr (error_toString err))])
             (res_status 400 r1), d)
      | Inr ok \<Rightarrow> ok)"

subsection \<open>POST /api/users/login\<close>

text \<open>\<^verbatim>\<open>User.findOne({ email })\<close>.\<close>

definition User_findOne_email :: "db \<Rightarrow> string \<Rightarrow> user option" where
  "User_findOne_email d em = find (\<lambda>x. email x = em) (users d)"

text \<open>None of the calls of the \<^verbatim>\<open>try\<close> block throws in this model, so the handler
  is its \<^verbatim>\<open>try\<close> block.\<close>

definition login :: "env \<Rightarrow> db \<Rightarrow> req \<Rightarrow> res \<times> db" where
  "login e d r =
     (if \<not> truthy (body r ''email'') \<or> \<not> truthy (body r ''password'')
      then (res_json (message_json ''Please provide email and password'')
              (res_status 400 res0), d)
      else
        (let em = or_else (body r ''email'') [];
             pw = or_else (body r ''password'') []
         in case User_findOne_email d em of
              None \<Rightarrow>
                (res_json (message_json ''Invalid email or password'') (res_status 401 res0), d)
            | Some u \<Rightarrow>
                (let isMatch = matchPassword e u pw in
                 if \<not> isMatch
                 then (res_json (message_json ''Invalid email or password'')
                         (res_status 401 res0), d)
                 else (res_json
                         (JObj [(''_id'', ref_json (uid u)), (''username'', JStr (username u)),
                                (''email'', JStr (email u)),
                                (''profilePicture'', JStr (profilePicture u)),
                                (''token'', JStr (generateToken e (uid u)))])
                         res0, d))))"

subsection \<open>PUT /api/users/profile\<close>

text \<open>
  The assignments the handler makes to the loaded user, in its order.
  Modelled from the spec: a password assigned to a user document is stored by
  \<^verbatim>\<open>save()\<close> as its one-way hash (the same hook as at registration, in
  \<^verbatim>\<open>models/userModel.js\<close>, which is not among the sources).
\<close>

definition assign_user :: "env \<Rightarrow> req \<Rightarrow> string option \<Rightarrow> user \<Rightarrow> user" where
  "assign_user e r filename u =
     (let u1 = u\<lparr>username := or_else (body r ''username'') (username u)\<rparr>;
          u2 = u1\<lparr>email := or_else (body r ''email'') (email u1)\<rparr>;
          u3 = u2\<lparr>bio := or_else (body r ''bio'') (bio u2)\<rparr>;
          u4 = (case filename of
                  None \<Rightarrow> u3
                | Some f \<Rightarrow> u3\<lparr>profilePicture := ''/uploads/profiles/'' @ f\<rparr>);
          u5 = (case body r ''password'' of
                  None \<Rightarrow> u4
                | Some pw \<Rightarrow>
                    if pw \<noteq> [] then u4\<lparr>password := Some (hash_password e pw)\<rparr> else u4)
      in u5)"

definition put_profile_try :: "env \<Rightarrow> db \<Rightarrow> req \<Rightarrow> user \<Rightarrow> string option \<Rightarrow> attempt" where
  "put_profile_try e d r me filename =
     (case User_findById d (uid me) of
        Some u \<Rightarrow>
          (let u5 = assign_user e r filename u
           in case save_user e d u5 of
                Inl err \<Rightarrow> Inl (err, res0)
              | Inr d' \<Rightarrow>
                  Inr (res_json
                         (JObj [(''_id'', ref_json (uid u5)), (''username'', JStr (username u5)),
                                (''email'', JStr (email u5)),
                                (''profilePicture'', JStr (profilePicture u5)),
                                (''bio'', JStr (bio u5)),
                                (''token'', JStr (generateToken e (uid u5)))])
                         res0, d'))
      | None \<Rightarrow> Inl (Error ''User not found'', res_status 404 res0))"

definition put_profile :: "env \<Rightarrow> db \<Rightarrow> req \<Rightarrow> user \<Rightarrow> string option \<Rightarrow> res \<times> db" where
  "put_profile e d r me filename =
     (case put_profile_try e d r me filename of
        Inl (err, r1) \<Rightarrow> (res_json (message_json (err_message err)) (res_status 400 r1), d)
      | Inr ok \<Rightarrow> ok)"

subsection \<open>GET /api/users/profile/:id\<close>

definition get_profile_try :: "env \<Rightarrow> db \<Rightarrow> req \<Rightarrow> attempt" where
  "get_profile_try e d r =
     (case map_option select_no_password (User_findById d (params_id r)) of
        Some u \<Rightarrow> Inr (res_json (user_json u) res0, d)
      | None \<Rightarrow> Inl (Error ''User not found'', res_status 404 res0))"

definition get_profile :: "env \<Rightarrow> db \<Rightarrow> req \<Rightarrow> res \<times> db" where
  "get_profile e d r =
     (case get_profile_try e d r of
        Inl (err, r1) \<Rightarrow> (res_json (message_json (err_message err)) (res_status 404 r1), d)
      | Inr ok \<Rightarrow> ok)"

section \<open>The HTTP surface (server.js)\<close>

datatype route =
    POST_users_register
  | POST_users_login
  | PUT_users_profile
  | GET_users_profile_id
  | POST_posts
  | GET_posts
  | GET_posts_id
  | PUT_posts_id
  | DELETE_posts_id
  | POST_posts_id_comments
  | PATCH_posts_id_like

text \<open>A route behind \<^verbatim>\<open>protect\<close>: the handler runs only on \<^verbatim>\<open>next()\<close>.\<close>

definition protected :: "env \<Rightarrow> db \<Rightarrow> req \<Rightarrow> (user \<Rightarrow> res \<times> db) \<Rightarrow> res \<times> db" where
  "protected e d r handler =
     (case protect e d r of
        Inl refusal \<Rightarrow> (refusal, d)
      | Inr u \<Rightarrow> handler u)"

text \<open>A route behind \<^verbatim>\<open>upload.single\<close>: an error of the upload goes to the error
  middleware, and the handler does not run.\<close>

definition uploading ::
  "env \<Rightarrow> db \<Rightarrow> req \<Rightarrow> string \<Rightarrow> (upload \<Rightarrow> string + bool) \<Rightarrow> (string option \<Rightarrow> res \<times> db)
     \<Rightarrow> res \<times> db" where
  "uploading e d r prefix fileFilter handler =
     (case upload_single prefix fileFilter r of
        Inl t \<Rightarrow> (error_middleware e t, d)
      | Inr filename \<Rightarrow> handler filename)"

fun app :: "env \<Rightarrow> db \<Rightarrow> route \<Rightarrow> req \<Rightarrow> res \<times> db" where
  "app e d POST_users_register r = register e d r"
| "app e d POST_users_login r = login e d r"
| "app e d PUT_users_profile r =
     protected e d r (\<lambda>u. uploading e d r ''user'' user_fileFilter (put_profile e d r u))"
| "app e d GET_users_profile_id r = get_profile e d r"
| "app e d POST_posts r =
     protected e d r (\<lambda>u. uploading e d r ''post'' post_fileFilter (create_post e d r u))"
| "app e d GET_posts r = list_posts e d r"
| "app e d GET_posts_id r = get_post e d r"
| "app e d PUT_posts_id r =
     protected e d r (\<lambda>u. uploading e d r ''post'' post_fileFilter (put_post e d r u))"
| "app e d DELETE_posts_id r = protected e d r (delete_post e d r)"
| "app e d POST_posts_id_comments r = protected e d r (add_comment e d r)"
| "app e d PATCH_posts_id_like r = protected e d r (like_post e d r)"

section \<open>Example data\<close>

text \<open>
  A small installation on which the properties below are evaluated: two users, Ann
  (id 1) and Bob (id 2), whose tokens are \<open>tokA\<close> and \<open>tokB\<close>; a toy hash that prefixes
  \<open>#\<close>; a keyword match by case-insensitive containment; a store that accepts every
  document; and one post, written by Ann and liked by Ann and Bob.
\<close>

definition env0 :: env where
  "env0 = \<lparr>jwt_verify = (\<lambda>t. if t = ''tokA'' then Inr 1 else if t = ''tokB'' then Inr 2
                               else Inl (Error ''jwt malformed'')),
            jwt_sign = (\<lambda>i. if i = 1 then ''tokA'' else ''tokB''),
            matchPassword = (\<lambda>u pw. password u = Some (CHR ''#'' # pw)),
            hash_password = (\<lambda>pw. CHR ''#'' # pw),
            regex_i = (\<lambda>kw. Some (\<lambda>t. occurs_in (toLowerCase kw) (toLowerCase t))),
            user_error = (\<lambda>us u. None),
            post_error = (\<lambda>p. None),
            skip_irregular = (\<lambda>k. Inl (Error ''Skip value must be an integer'')),
            development = False\<rparr>"

definition ann :: user where
  "ann = \<lparr>uid = 1, username = ''ann'', email = ''ann@example.org'',
           password = Some ''#secret'', profilePicture = [], bio = ''hello''\<rparr>"

definition bob :: user where
  "bob = \<lparr>uid = 2, username = ''bob'', email = ''bob@example.org'',
           password = Some ''#hunter2'', profilePicture = [], bio = []\<rparr>"

definition post10 :: post where
  "post10 = \<lparr>pid = 10, title = ''T'', content = ''C'', author = 1, tags = [''news''],
              image_url = [], comments = [], likes = [1, 2], createdAt = 5\<rparr>"

definition db0 :: db where
  "db0 = \<lparr>users = [ann, bob], posts = [post10]\<rparr>"

text \<open>A request with the given \<^verbatim>\<open>Authorization\<close> header, \<^verbatim>\<open>:id\<close> and body fields, and
  nothing else.\<close>

definition request :: "string option \<Rightarrow> oid \<Rightarrow> (string \<times> string) list \<Rightarrow> req" where
  "request hdr i kvs =
     \<lparr>authorization = hdr, params_id = i, body = map_of kvs, page_number = NaN,
      keyword = None, req_file = None, now = 7\<rparr>"

text \<open>The same store with Ann's like recorded twice.\<close>

definition db_dup :: db where
  "db_dup = \<lparr>users = [ann, bob], posts = [post10\<lparr>likes := [1, 2, 1]\<rparr>]\<rparr>"



text \<open>The likes stored for a post, and the stored post's title.\<close>

definition stored_likes :: "db \<Rightarrow> oid \<Rightarrow> oid list option" where
  "stored_likes d i = map_option likes (Post_findById d i)"

definition stored_title :: "db \<Rightarrow> oid \<Rightarrow> string option" where
  "stored_title d i = map_option title (Post_findById d i)"

text \<open>A response that was sent and whose body has no \<open>password\<close> field at any
  depth.\<close>

definition no_password :: "res \<Rightarrow> bool" where
  "no_password resp =
     (case sent resp of None \<Rightarrow> False | Some j \<Rightarrow> \<not> has_field ''password'' j)"

section \<open>Basic facts about the store and the guard\<close>

lemma findIndex_ge: "- 1 \<le> findIndex P xs"
  by (induction xs) (auto simp: Let_def)

lemma findIndex_none: "findIndex P xs = - 1 \<longleftrightarrow> (\<forall>x \<in> set xs. \<not> P x)"
proof (induction xs)
  case Nil
  show ?case by simp
next
  case (Cons a xs)
  have "findIndex P xs + 1 \<noteq> - 1" using findIndex_ge [of P xs] by arith
  with Cons show ?case by (auto simp: Let_def)
qed

lemma find_replace:
  "find (\<lambda>q. k q = i) xs = Some p \<Longrightarrow> k p' = i \<Longrightarrow>
   find (\<lambda>q. k q = i) (map (\<lambda>q. if k q = i then p' else q) xs) = Some p'"
  by (induction xs) (auto split: if_splits)

lemma find_key: "find (\<lambda>q. k q = i) xs = Some p \<Longrightarrow> k p = i"
  by (induction xs) (auto split: if_splits)

text \<open>Saving a loaded post puts it where the loaded one was and leaves the users alone.\<close>

lemma save_post_find:
  "Post_findById d i = Some p \<Longrightarrow> pid p' = pid p \<Longrightarrow> save_post e d p' = Inr d' \<Longrightarrow>
   Post_findById d' i = Some p' \<and> users d' = users d"
proof -
  assume f: "Post_findById d i = Some p" and q: "pid p' = pid p"
    and s: "save_post e d p' = Inr d'"
  from f have i: "pid p = i" by (auto simp: Post_findById_def dest: find_key)
  from s have d': "d' = d\<lparr>posts := map (\<lambda>q. if pid q = pid p' then p' else q) (posts d)\<rparr>"
    by (auto simp: save_post_def split: option.splits)
  from f q i show ?thesis unfolding d' Post_findById_def
    by (simp add: find_replace)
qed

lemma save_user_find:
  assumes f: "User_findById d i = Some u" and q: "uid u' = uid u"
    and s: "save_user e d u' = Inr d'"
  shows "User_findById d' i = Some u' \<and> posts d' = posts d"
proof -
  from f have i: "uid u = i" by (auto simp: User_findById_def dest: find_key)
  from s have d': "d' = d\<lparr>users := map (\<lambda>q. if uid q = uid u' then u' else q) (users d)\<rparr>"
    by (auto simp: save_user_def split: option.splits)
  from f q i show ?thesis unfolding d' User_findById_def
    by (simp add: find_replace)
qed

text \<open>Every refusal of the guard is a 401.\<close>

lemma protect_refusal: "protect e d r = Inl resp \<Longrightarrow> statusCode resp = 401"
  by (auto simp: protect_def res_json_def res_status_def res0_def
           split: option.splits if_splits sum.splits)

lemma protect_refusal_body:
  "protect e d r = Inl resp \<Longrightarrow>
   sent resp = Some (message_json ''Not authorized, no token'') \<or>
   (\<exists>m. sent resp = Some (JObj [(''message'', JStr ''Not authorized, token failed''),
                                  (''error'', JStr m)]))"
  by (auto simp: protect_def res_json_def res_status_def res0_def
           split: option.splits if_splits sum.splits)

lemma protected_cases:
  "protected e d r h = (resp, d') \<Longrightarrow>
   (\<exists>u. protect e d r = Inr u \<and> h u = (resp, d')) \<or>
   (statusCode resp = 401 \<and> d' = d \<and> protect e d r = Inl resp)"
  by (auto simp: protected_def split: sum.splits dest: protect_refusal)

text \<open>The guard reads only the users of the store.\<close>

lemma protect_try_users:
  assumes "users d1 = users d"
  shows "protect_try e d1 h = protect_try e d h"
proof -
  have eq: "User_findById d1 = User_findById d"
    using assms by (simp add: User_findById_def fun_eq_iff)
  show ?thesis unfolding protect_try_def eq ..
qed

lemma protect_users:
  assumes "users d1 = users d"
  shows "protect e d1 r = protect e d r"
  unfolding protect_def protect_try_users [OF assms] ..

section \<open>The like toggle\<close>

lemma toggle_absent: "me \<notin> set ls \<Longrightarrow> toggle_likes me ls = ls @ [me]"
  by (simp add: toggle_likes_def findIndex_none)

lemma toggle_present: "me \<in> set ls \<Longrightarrow> toggle_likes me ls = filter (\<lambda>i. i \<noteq> me) ls"
  by (auto simp add: toggle_likes_def findIndex_none)

lemma count_toggle: "count_list (toggle_likes me ls) me \<le> 1"
  by (cases "me \<in> set ls") (simp_all add: toggle_absent toggle_present count_list_0_iff)

lemma toggle_twice:
  "toggle_likes me (toggle_likes me ls) =
     (if me \<in> set ls then filter (\<lambda>i. i \<noteq> me) ls @ [me] else ls)"
  by (auto simp: toggle_absent toggle_present filter_id_conv)

text \<open>A like request answered with 200 found the post, stored it with the toggled
  list and sent that list.\<close>

lemma like_post_ok:
  assumes "like_post e d r u = (resp, d')" "statusCode resp = 200"
  shows "\<exists>p. Post_findById d (params_id r) = Some p \<and>
             Post_findById d' (params_id r)
               = Some (p\<lparr>likes := toggle_likes (uid u) (likes p)\<rparr>) \<and>
             sent resp = Some (likes_json (p\<lparr>likes := toggle_likes (uid u) (likes p)\<rparr>)) \<and>
             users d' = users d"
proof (cases "Post_findById d (params_id r)")
  case None
  with assms show ?thesis
    by (auto simp: like_post_def like_post_try_def res_json_def res_status_def res0_def)
next
  case (Some p)
  show ?thesis
  proof (cases "save_post e d (p\<lparr>likes := toggle_likes (uid u) (likes p)\<rparr>)")
    case (Inl err)
    with Some assms show ?thesis
      by (auto simp: like_post_def like_post_try_def res_json_def res_status_def res0_def
                     Let_def)
  next
    case (Inr d2)
    with Some assms have "d' = d2"
      "sent resp = Some (likes_json (p\<lparr>likes := toggle_likes (uid u) (likes p)\<rparr>))"
      by (auto simp: like_post_def like_post_try_def res_json_def res_status_def res0_def
                     Let_def)
    moreover from save_post_find [OF Some _ Inr]
    have "Post_findById d2 (params_id r)
            = Some (p\<lparr>likes := toggle_likes (uid u) (likes p)\<rparr>)" "users d2 = users d"
      by simp_all
    ultimately show ?thesis using Some by simp
  qed
qed

text \<open>
  Claim C10. After every successful like toggle (a \<^verbatim>\<open>PATCH /api/posts/:id/like\<close>
  answered with 200), the stored post, whose like list is the body of the response, has
  the caller's id at most once in that list, however often it occurred before.
\<close>

theorem like_toggle_at_most_once:
  assumes "app e d PATCH_posts_id_like r = (resp, d')" and "statusCode resp = 200"
  shows "\<exists>u p. protect e d r = Inr u \<and> Post_findById d' (params_id r) = Some p \<and>
               sent resp = Some (likes_json p) \<and> count_list (likes p) (uid u) \<le> 1"
proof -
  from assms(1) have "protected e d r (like_post e d r) = (resp, d')" by simp
  from protected_cases [OF this] assms(2)
  obtain u where u: "protect e d r = Inr u" and l: "like_post e d r u = (resp, d')"
    by auto
  from like_post_ok [OF l assms(2)] obtain p where
    "Post_findById d' (params_id r) = Some (p\<lparr>likes := toggle_likes (uid u) (likes p)\<rparr>)"
    "sent resp = Some (likes_json (p\<lparr>likes := toggle_likes (uid u) (likes p)\<rparr>))"
    by blast
  with u count_toggle [of "uid u"] show ?thesis by auto
qed

text \<open>Ann, whose like is stored twice, toggles: the request is answered with 200 and
  the theorem applies.\<close>

theorem like_toggle_at_most_once_witness:
  "\<exists>u p. protect env0 db_dup (request (Some ''Bearer tokA'') 10 []) = Inr u \<and>
          Post_findById
            (snd (app env0 db_dup PATCH_posts_id_like (request (Some ''Bearer tokA'') 10 [])))
            (params_id (request (Some ''Bearer tokA'') 10 [])) = Some p \<and>
          sent (fst (app env0 db_dup PATCH_posts_id_like (request (Some ''Bearer tokA'') 10 [])))
            = Some (likes_json p) \<and>
          count_list (likes p) (uid u) \<le> 1"
proof -
  have h: "statusCode (fst (app env0 db_dup PATCH_posts_id_like
                             (request (Some ''Bearer tokA'') 10 []))) = 200"
    by code_simp
  show ?thesis
    by (rule like_toggle_at_most_once [OF prod.collapse [symmetric] h])
qed

text \<open>
  Claim C8, as stated: toggling twice with the same user gives back the original like
  list. It fails when the user's id was present and not alone at the end: Ann and Bob
  like the post, in this order; after Ann has toggled twice the stored list is Bob, Ann.
\<close>

theorem like_twice_counterexample:
  "stored_likes db0 10 = Some [1, 2] \<and>
   stored_likes
     (snd (app env0
             (snd (app env0 db0 PATCH_posts_id_like (request (Some ''Bearer tokA'') 10 [])))
             PATCH_posts_id_like (request (Some ''Bearer tokA'') 10 []))) 10
     = Some [2, 1]"
  by code_simp

text \<open>
  Claim C8, amended. Two successive successful toggles by the same user leave the same
  users liking the post. The list itself is the original one when the user's id was
  absent; when it was present, the list is the original one with every occurrence of
  the id removed and the id appended at the end.
\<close>

theorem like_twice:
  assumes "app e d PATCH_posts_id_like r = (r1, d1)" and "statusCode r1 = 200"
      and "app e d1 PATCH_posts_id_like r = (r2, d2)" and "statusCode r2 = 200"
  shows "\<exists>u p0 p2. protect e d r = Inr u \<and> Post_findById d (params_id r) = Some p0 \<and>
           Post_findById d2 (params_id r) = Some p2 \<and>
           sent r2 = Some (likes_json p2) \<and>
           set (likes p2) = set (likes p0) \<and>
           likes p2 = (if uid u \<in> set (likes p0)
                       then filter (\<lambda>i. i \<noteq> uid u) (likes p0) @ [uid u] else likes p0)"
proof -
  from assms(1) have "protected e d r (like_post e d r) = (r1, d1)" by simp
  from protected_cases [OF this] assms(2)
  obtain u where u: "protect e d r = Inr u" and l1: "like_post e d r u = (r1, d1)"
    by auto
  from like_post_ok [OF l1 assms(2)] obtain p0 where
    p0: "Post_findById d (params_id r) = Some p0" and
    p1: "Post_findById d1 (params_id r)
           = Some (p0\<lparr>likes := toggle_likes (uid u) (likes p0)\<rparr>)" and
    us: "users d1 = users d"
    by blast
  from us have same: "protect e d1 r = protect e d r" by (rule protect_users)
  from assms(3) have "protected e d1 r (like_post e d1 r) = (r2, d2)" by simp
  from protected_cases [OF this] assms(4) same u
  have l2: "like_post e d1 r u = (r2, d2)" by auto
  from like_post_ok [OF l2 assms(4)] p1 obtain p2 where
    p2: "Post_findById d2 (params_id r) = Some p2" and
    s2: "sent r2 = Some (likes_json p2)" and
    k2: "likes p2 = toggle_likes (uid u) (toggle_likes (uid u) (likes p0))"
    by auto
  have "set (likes p2) = set (likes p0)" unfolding k2 toggle_twice by auto
  with u p0 p2 s2 k2 show ?thesis by (auto simp: toggle_twice)
qed

text \<open>Ann toggles twice on the example store: both requests are answered with 200.\<close>

theorem like_twice_witness:
  "\<exists>u p0 p2. protect env0 db0 (request (Some ''Bearer tokA'') 10 []) = Inr u \<and>
     Post_findById db0 (params_id (request (Some ''Bearer tokA'') 10 [])) = Some p0 \<and>
     Post_findById
       (snd (app env0
               (snd (app env0 db0 PATCH_posts_id_like (request (Some ''Bearer tokA'') 10 [])))
               PATCH_posts_id_like (request (Some ''Bearer tokA'') 10 [])))
       (params_id (request (Some ''Bearer tokA'') 10 [])) = Some p2 \<and>
     sent (fst (app env0
                  (snd (app env0 db0 PATCH_posts_id_like (request (Some ''Bearer tokA'') 10 [])))
                  PATCH_posts_id_like (request (Some ''Bearer tokA'') 10 [])))
       = Some (likes_json p2) \<and>
     set (likes p2) = set (likes p0) \<and>
     likes p2 = (if uid u \<in> set (likes p0)
                 then filter (\<lambda>i. i \<noteq> uid u) (likes p0) @ [uid u] else likes p0)"
proof -
  have h1: "statusCode (fst (app env0 db0 PATCH_posts_id_like
                              (request (Some ''Bearer tokA'') 10 []))) = 200"
    by code_simp
  have h2: "statusCode
              (fst (app env0
                      (snd (app env0 db0 PATCH_posts_id_like
                              (request (Some ''Bearer tokA'') 10 [])))
                      PATCH_posts_id_like (request (Some ''Bearer tokA'') 10 []))) = 200"
    by code_simp
  show ?thesis
    by (rule like_twice [OF prod.collapse [symmetric] h1 prod.collapse [symmetric] h2])
qed

section \<open>Ownership and existence checks of the post mutations\<close>

lemma put_post_non_author:
  assumes "Post_findById d (params_id r) = Some p" and "author p \<noteq> uid u"
  shows "put_post e d r u filename =
           (\<lparr>statusCode = 400, sent = Some (message_json ''Not authorized to update this post'')\<rparr>, d)"
  using assms
  by (simp add: put_post_def put_post_try_def Error_def res_json_def res_status_def res0_def)

lemma delete_post_non_author:
  assumes "Post_findById d (params_id r) = Some p" and "author p \<noteq> uid u"
  shows "delete_post e d r u =
           (\<lparr>statusCode = 401, sent = Some (message_json ''Not authorized to delete this post'')\<rparr>, d)"
  using assms
  by (simp add: delete_post_def res_json_def res_status_def res0_def)

text \<open>
  Claim C1, on the code. An authenticated caller who is not the author of an existing
  post leaves the store unchanged with either mutation. \<^verbatim>\<open>DELETE /api/posts/:id\<close>
  answers 401. \<^verbatim>\<open>PUT /api/posts/:id\<close> sets the status 401 and throws; its \<^verbatim>\<open>catch\<close>
  block then sets the status 400 and sends the message, so the response has status 400,
  not the 401 of the claim.
\<close>

theorem non_author_mutation:
  assumes "protect e d r = Inr u" and "Post_findById d (params_id r) = Some p"
      and "author p \<noteq> uid u" and "upload_single ''post'' post_fileFilter r = Inr filename"
  shows "app e d PUT_posts_id r =
           (\<lparr>statusCode = 400, sent = Some (message_json ''Not authorized to update this post'')\<rparr>, d)
       \<and> app e d DELETE_posts_id r =
           (\<lparr>statusCode = 401, sent = Some (message_json ''Not authorized to delete this post'')\<rparr>, d)"
  using assms
  by (simp add: protected_def uploading_def put_post_non_author delete_post_non_author)

text \<open>Bob tries both mutations on Ann's post.\<close>

theorem non_author_mutation_witness:
  "app env0 db0 PUT_posts_id (request (Some ''Bearer tokB'') 10 [(''title'', ''mine'')]) =
           (\<lparr>statusCode = 400, sent = Some (message_json ''Not authorized to update this post'')\<rparr>, db0)
       \<and> app env0 db0 DELETE_posts_id (request (Some ''Bearer tokB'') 10 [(''title'', ''mine'')]) =
           (\<lparr>statusCode = 401, sent = Some (message_json ''Not authorized to delete this post'')\<rparr>, db0)"
proof -
  have h1: "protect env0 db0 (request (Some ''Bearer tokB'') 10 [(''title'', ''mine'')]) = Inr (select_no_password bob)"
    by code_simp
  have h2: "Post_findById db0 (params_id (request (Some ''Bearer tokB'') 10 [(''title'', ''mine'')])) = Some post10"
    by code_simp
  have h3: "author post10 \<noteq> uid (select_no_password bob)" by code_simp
  have h4: "upload_single ''post'' post_fileFilter (request (Some ''Bearer tokB'') 10 [(''title'', ''mine'')]) = Inr None"
    by code_simp
  show ?thesis by (rule non_author_mutation [OF h1 h2 h3 h4])
qed

lemma put_post_missing:
  assumes "Post_findById d (params_id r) = None"
  shows "put_post e d r u filename =
           (\<lparr>statusCode = 400, sent = Some (message_json ''Post not found'')\<rparr>, d)"
  using assms
  by (simp add: put_post_def put_post_try_def Error_def res_json_def res_status_def res0_def)

lemma add_comment_missing:
  assumes "Post_findById d (params_id r) = None"
  shows "add_comment e d r u =
           (\<lparr>statusCode = 400, sent = Some (message_json ''Post not found'')\<rparr>, d)"
  using assms
  by (simp add: add_comment_def add_comment_try_def Error_def res_json_def res_status_def res0_def)

lemma delete_post_missing:
  assumes "Post_findById d (params_id r) = None"
  shows "delete_post e d r u =
           (\<lparr>statusCode = 404, sent = Some (message_json ''Post not found'')\<rparr>, d)"
  using assms
  by (simp add: delete_post_def res_json_def res_status_def res0_def)

text \<open>
  Claim C7, on the code. When no post has the given id, \<^verbatim>\<open>DELETE /api/posts/:id\<close>
  answers 404. \<^verbatim>\<open>PUT /api/posts/:id\<close> and \<^verbatim>\<open>POST /api/posts/:id/comments\<close> set the
  status 404 and throw; their \<^verbatim>\<open>catch\<close> blocks then set the status 400, so both answer
  400 with the message \<open>Post not found\<close>, not the 404 of the claim.
\<close>

theorem missing_post_mutation:
  assumes "protect e d r = Inr u" and "Post_findById d (params_id r) = None"
      and "upload_single ''post'' post_fileFilter r = Inr filename"
  shows "app e d PUT_posts_id r =
           (\<lparr>statusCode = 400, sent = Some (message_json ''Post not found'')\<rparr>, d)
       \<and> app e d POST_posts_id_comments r =
           (\<lparr>statusCode = 400, sent = Some (message_json ''Post not found'')\<rparr>, d)
       \<and> app e d DELETE_posts_id r =
           (\<lparr>statusCode = 404, sent = Some (message_json ''Post not found'')\<rparr>, d)"
  using assms
  by (simp add: protected_def uploading_def put_post_missing add_comment_missing delete_post_missing)

text \<open>Ann addresses a post that does not exist.\<close>

theorem missing_post_mutation_witness:
  "app env0 db0 PUT_posts_id (request (Some ''Bearer tokA'') 11 [(''text'', ''nice'')]) =
           (\<lparr>statusCode = 400, sent = Some (message_json ''Post not found'')\<rparr>, db0)
       \<and> app env0 db0 POST_posts_id_comments (request (Some ''Bearer tokA'') 11 [(''text'', ''nice'')]) =
           (\<lparr>statusCode = 400, sent = Some (message_json ''Post not found'')\<rparr>, db0)
       \<and> app env0 db0 DELETE_posts_id (request (Some ''Bearer tokA'') 11 [(''text'', ''nice'')]) =
           (\<lparr>statusCode = 404, sent = Some (message_json ''Post not found'')\<rparr>, db0)"
proof -
  have h1: "protect env0 db0 (request (Some ''Bearer tokA'') 11 [(''text'', ''nice'')]) = Inr (select_no_password ann)"
    by code_simp
  have h2: "Post_findById db0 (params_id (request (Some ''Bearer tokA'') 11 [(''text'', ''nice'')])) = None"
    by code_simp
  have h4: "upload_single ''post'' post_fileFilter (request (Some ''Bearer tokA'') 11 [(''text'', ''nice'')]) = Inr None"
    by code_simp
  show ?thesis by (rule missing_post_mutation [OF h1 h2 h4])
qed

section \<open>Login\<close>

text \<open>
  Claim C4. Of two login requests that both carry an email and a password, one with an
  email that matches no stored user and one with the email of a stored user and a
  password that does not match, the responses are identical: status 401 and the body
  \<open>{message: 'Invalid email or password'}\<close>.
\<close>

theorem login_failures_identical:
  assumes "body r1 ''email'' = Some em1" and "em1 \<noteq> []"
      and "body r1 ''password'' = Some pw1" and "pw1 \<noteq> []"
      and "body r2 ''email'' = Some em2" and "em2 \<noteq> []"
      and "body r2 ''password'' = Some pw2" and "pw2 \<noteq> []"
      and "User_findOne_email d em1 = None"
      and "User_findOne_email d em2 = Some u" and "\<not> matchPassword e u pw2"
  shows "fst (app e d POST_users_login r1) = fst (app e d POST_users_login r2) \<and>
         statusCode (fst (app e d POST_users_login r1)) = 401 \<and>
         sent (fst (app e d POST_users_login r1)) = Some (message_json ''Invalid email or password'')"
  using assms
  by (simp add: login_def or_else_def res_json_def res_status_def res0_def)

text \<open>An unknown address, and Ann's address with a wrong password.\<close>

theorem login_failures_identical_witness:
  "fst (app env0 db0 POST_users_login (request None 0 [(''email'', ''eve@example.org''), (''password'', ''secret'')]))
     = fst (app env0 db0 POST_users_login (request None 0 [(''email'', ''ann@example.org''), (''password'', ''guess'')])) \<and>
   statusCode (fst (app env0 db0 POST_users_login (request None 0 [(''email'', ''eve@example.org''), (''password'', ''secret'')]))) = 401 \<and>
   sent (fst (app env0 db0 POST_users_login (request None 0 [(''email'', ''eve@example.org''), (''password'', ''secret'')])))
     = Some (message_json ''Invalid email or password'')"
proof -
  have a: "body (request None 0 [(''email'', ''eve@example.org''), (''password'', ''secret'')]) ''email'' = Some ''eve@example.org''"
          "''eve@example.org'' \<noteq> []"
          "body (request None 0 [(''email'', ''eve@example.org''), (''password'', ''secret'')]) ''password'' = Some ''secret''"
          "''secret'' \<noteq> []"
    by (simp_all add: request_def)
  have b: "body (request None 0 [(''email'', ''ann@example.org''), (''password'', ''guess'')]) ''email'' = Some ''ann@example.org''"
          "''ann@example.org'' \<noteq> []"
          "body (request None 0 [(''email'', ''ann@example.org''), (''password'', ''guess'')]) ''password'' = Some ''guess''"
          "''guess'' \<noteq> []"
    by (simp_all add: request_def)
  have c: "User_findOne_email db0 ''eve@example.org'' = None"
          "User_findOne_email db0 ''ann@example.org'' = Some ann"
          "\<not> matchPassword env0 ann ''guess''"
    by (simp_all add: User_findOne_email_def db0_def ann_def bob_def env0_def)
  show ?thesis by (rule login_failures_identical [OF a b c])
qed

section \<open>The Auth Guard\<close>

lemma split_js_none: "c \<notin> set s \<Longrightarrow> split_js c s = [s]"
  by (induction s) auto

lemma split_js_first: "c \<notin> set a \<Longrightarrow> split_js c (a @ c # b) = a # split_js c b"
  by (induction a) (auto split: list.splits)

lemma bearer_token:
  assumes "CHR '' '' \<notin> set tok"
  shows "element_at (split_js CHR '' '' (''Bearer '' @ tok)) 1 = Some tok"
proof -
  have "split_js CHR '' '' (''Bearer'' @ CHR '' '' # tok) = ''Bearer'' # split_js CHR '' '' tok"
    by (rule split_js_first) simp
  with assms show ?thesis by (simp add: split_js_none)
qed

lemma protect_no_header:
  "\<not> (\<exists>h. authorization r = Some h \<and> startsWith h ''Bearer'') \<Longrightarrow>
   protect e d r = Inl \<lparr>statusCode = 401, sent = Some (message_json ''Not authorized, no token'')\<rparr>"
  by (auto simp: protect_def res_json_def res_status_def res0_def split: option.splits)

lemma protect_bearer:
  "authorization r = Some h \<Longrightarrow> startsWith h ''Bearer'' \<Longrightarrow>
   protect e d r =
     (case protect_try e d h of
        Inl err \<Rightarrow> Inl \<lparr>statusCode = 401,
                          sent = Some (JObj [(''message'', JStr ''Not authorized, token failed''),
                                             (''error'', JStr (err_message err))])\<rparr>
      | Inr u \<Rightarrow> Inr u)"
  by (auto simp: protect_def startsWith_def res_json_def res_status_def res0_def split: sum.splits)

lemma protect_try_accept:
  "protect_try e d h = Inr u \<Longrightarrow>
   \<exists>tok i su. element_at (split_js CHR '' '' h) 1 = Some tok \<and> tok \<noteq> [] \<and> jwt_verify e tok = Inr i \<and>
       User_findById d i = Some su \<and> u = select_no_password su"
  by (auto simp: protect_try_def verify_def Let_def split: sum.splits option.splits if_splits)

lemma protect_try_verified:
  assumes "element_at (split_js CHR '' '' h) 1 = Some tok" and "tok \<noteq> []"
      and "jwt_verify e tok = Inr i" and "User_findById d i = Some su"
  shows "protect_try e d h = Inr (select_no_password su)"
  unfolding protect_try_def Let_def assms(1) using assms(2-4) by (simp add: verify_def)

text \<open>
  Claim C2, as stated: the guard accepts a header only when it is \<open>Bearer\<close>, a space
  and the token, and answers every other header with the no-token error. It fails: the
  header \<open>BearerX tokA\<close> is accepted (the handler runs and deletes the post), and the
  header \<open>Bearer\<close> is refused with the token-failed error.
\<close>

theorem auth_guard_counterexample:
  "protect env0 db0 (request (Some ''BearerX tokA'') 10 []) = Inr (select_no_password ann) \<and>
   \<not> startsWith ''BearerX tokA'' ''Bearer '' \<and>
   statusCode (fst (app env0 db0 DELETE_posts_id (request (Some ''BearerX tokA'') 10 []))) = 200 \<and>
   protect env0 db0 (request (Some ''Bearer'') 10 []) =
     Inl \<lparr>statusCode = 401,
          sent = Some (JObj [(''message'', JStr ''Not authorized, token failed''),
                             (''error'', JStr ''jwt must be provided'')])\<rparr>"
  by code_simp

text \<open>
  Claim C2, amended. The guard answers 401 with the no-token error exactly when the
  header is absent or does not start with \<open>Bearer\<close>. A header that starts with
  \<open>Bearer\<close> is accepted when the second of its space-separated pieces is there, is not
  empty, verifies as a token and names a stored user; the handler then runs with that
  user, loaded without the password. Otherwise such a header is refused with the
  token-failed error. Every refusal is a 401 after which the handler does not run. In
  particular \<open>Bearer\<close>, one space and a valid token of a stored user is accepted.
\<close>

theorem auth_guard:
  "(protect e d r = Inl \<lparr>statusCode = 401, sent = Some (message_json ''Not authorized, no token'')\<rparr>
      \<longleftrightarrow> \<not> (\<exists>h. authorization r = Some h \<and> startsWith h ''Bearer''))
   \<and> (\<forall>resp. protect e d r = Inl resp \<longrightarrow>
         statusCode resp = 401 \<and> protected e d r handler = (resp, d) \<and>
         (sent resp = Some (message_json ''Not authorized, no token'') \<or>
          (\<exists>m. sent resp = Some (JObj [(''message'', JStr ''Not authorized, token failed''),
                                         (''error'', JStr m)]))))
   \<and> (\<forall>u. protect e d r = Inr u \<longrightarrow>
         protected e d r handler = handler u \<and>
         (\<exists>h tok i su. authorization r = Some h \<and> startsWith h ''Bearer'' \<and>
             element_at (split_js CHR '' '' h) 1 = Some tok \<and> tok \<noteq> [] \<and>
             jwt_verify e tok = Inr i \<and>
             User_findById d i = Some su \<and> u = select_no_password su))
   \<and> (\<forall>tok i su. authorization r = Some (''Bearer '' @ tok) \<and> tok \<noteq> [] \<and>
         CHR '' '' \<notin> set tok \<and> jwt_verify e tok = Inr i \<and> User_findById d i = Some su \<longrightarrow>
         protect e d r = Inr (select_no_password su))
   \<and> (\<forall>h tok i su. authorization r = Some h \<and> startsWith h ''Bearer'' \<and>
         element_at (split_js CHR '' '' h) 1 = Some tok \<and> tok \<noteq> [] \<and>
         jwt_verify e tok = Inr i \<and> User_findById d i = Some su \<longrightarrow>
         protect e d r = Inr (select_no_password su))
   \<and> (\<forall>h. authorization r = Some h \<and> startsWith h ''Bearer'' \<and>
         (\<nexists>tok i su. element_at (split_js CHR '' '' h) 1 = Some tok \<and> tok \<noteq> [] \<and>
             jwt_verify e tok = Inr i \<and> User_findById d i = Some su) \<longrightarrow>
         (\<exists>m. protect e d r =
                Inl \<lparr>statusCode = 401,
                     sent = Some (JObj [(''message'', JStr ''Not authorized, token failed''),
                                        (''error'', JStr m)])\<rparr>))"
proof (intro conjI allI impI)
  show "(protect e d r = Inl \<lparr>statusCode = 401, sent = Some (message_json ''Not authorized, no token'')\<rparr>)
      \<longleftrightarrow> \<not> (\<exists>h. authorization r = Some h \<and> startsWith h ''Bearer'')"
  proof
    assume l: "protect e d r = Inl \<lparr>statusCode = 401, sent = Some (message_json ''Not authorized, no token'')\<rparr>"
    show "\<not> (\<exists>h. authorization r = Some h \<and> startsWith h ''Bearer'')"
    proof
      assume "\<exists>h. authorization r = Some h \<and> startsWith h ''Bearer''"
      then obtain h where "authorization r = Some h" "startsWith h ''Bearer''" by blast
      from protect_bearer [OF this, of e d] l show False
        by (auto simp: message_json_def split: sum.splits)
    qed
  next
    assume "\<not> (\<exists>h. authorization r = Some h \<and> startsWith h ''Bearer'')"
    then show "protect e d r = Inl \<lparr>statusCode = 401, sent = Some (message_json ''Not authorized, no token'')\<rparr>"
      by (rule protect_no_header)
  qed
next
  fix resp assume "protect e d r = Inl resp"
  then show "statusCode resp = 401" by (rule protect_refusal)
next
  fix resp assume "protect e d r = Inl resp"
  then show "protected e d r handler = (resp, d)" by (simp add: protected_def)
next
  fix resp assume "protect e d r = Inl resp"
  then show "sent resp = Some (message_json ''Not authorized, no token'') \<or>
          (\<exists>m. sent resp = Some (JObj [(''message'', JStr ''Not authorized, token failed''),
                                         (''error'', JStr m)]))"
    by (rule protect_refusal_body)
next
  fix u assume "protect e d r = Inr u"
  then show "protected e d r handler = handler u" by (simp add: protected_def)
next
  fix u assume a: "protect e d r = Inr u"
  show "\<exists>h tok i su. authorization r = Some h \<and> startsWith h ''Bearer'' \<and>
             element_at (split_js CHR '' '' h) 1 = Some tok \<and> tok \<noteq> [] \<and>
             jwt_verify e tok = Inr i \<and>
             User_findById d i = Some su \<and> u = select_no_password su"
  proof (cases "\<exists>h. authorization r = Some h \<and> startsWith h ''Bearer''")
    case False
    from protect_no_header [OF this, of e d] a show ?thesis by simp
  next
    case True
    then obtain h where h: "authorization r = Some h" "startsWith h ''Bearer''" by blast
    from protect_bearer [OF h, of e d] a have "protect_try e d h = Inr u"
      by (auto split: sum.splits)
    from protect_try_accept [OF this] h show ?thesis by blast
  qed
next
  fix tok i su
  assume a: "authorization r = Some (''Bearer '' @ tok) \<and> tok \<noteq> [] \<and>
         CHR '' '' \<notin> set tok \<and> jwt_verify e tok = Inr i \<and> User_findById d i = Some su"
  then have t: "element_at (split_js CHR '' '' (''Bearer '' @ tok)) 1 = Some tok"
    using bearer_token by blast
  have s: "startsWith (''Bearer '' @ tok) ''Bearer''" by (simp add: startsWith_def)
  from a have h: "authorization r = Some (''Bearer '' @ tok)" by simp
  have "protect_try e d (''Bearer '' @ tok) = Inr (select_no_password su)"
    unfolding protect_try_def Let_def t using a by (simp add: verify_def)
  with protect_bearer [OF h s, of e d] show "protect e d r = Inr (select_no_password su)"
    by simp
next
  fix h tok i su
  assume a: "authorization r = Some h \<and> startsWith h ''Bearer'' \<and>
         element_at (split_js CHR '' '' h) 1 = Some tok \<and> tok \<noteq> [] \<and>
         jwt_verify e tok = Inr i \<and> User_findById d i = Some su"
  then have "protect_try e d h = Inr (select_no_password su)"
    by (simp add: protect_try_verified)
  with a protect_bearer [of r h e d] show "protect e d r = Inr (select_no_password su)"
    by simp
next
  fix h
  assume a: "authorization r = Some h \<and> startsWith h ''Bearer'' \<and>
         (\<nexists>tok i su. element_at (split_js CHR '' '' h) 1 = Some tok \<and> tok \<noteq> [] \<and>
             jwt_verify e tok = Inr i \<and> User_findById d i = Some su)"
  have "\<exists>err. protect_try e d h = Inl err"
  proof (cases "protect_try e d h")
    case (Inl err)
    then show ?thesis by blast
  next
    case (Inr u)
    from protect_try_accept [OF this] a show ?thesis by blast
  qed
  then obtain err where "protect_try e d h = Inl err" by blast
  with a protect_bearer [of r h e d]
  show "\<exists>m. protect e d r =
                Inl \<lparr>statusCode = 401,
                     sent = Some (JObj [(''message'', JStr ''Not authorized, token failed''),
                                        (''error'', JStr m)])\<rparr>"
    by simp
qed

text \<open>No header; Ann's well-formed header in front of the delete handler; a header that
  starts with \<open>Bearer\<close> without being \<open>Bearer\<close> and a space, accepted; and a token that
  does not verify, refused.\<close>

theorem auth_guard_witness:
  "protect env0 db0 (request None 10 [])
     = Inl \<lparr>statusCode = 401, sent = Some (message_json ''Not authorized, no token'')\<rparr> \<and>
   protect env0 db0 (request (Some ''Bearer tokA'') 10 []) = Inr (select_no_password ann) \<and>
   protected env0 db0 (request (Some ''Bearer tokA'') 10 [])
       (delete_post env0 db0 (request (Some ''Bearer tokA'') 10 []))
     = delete_post env0 db0 (request (Some ''Bearer tokA'') 10 []) (select_no_password ann) \<and>
   protect env0 db0 (request (Some ''BearerX tokB'') 10 []) = Inr (select_no_password bob) \<and>
   (\<exists>m. protect env0 db0 (request (Some ''Bearer nonsense'') 10 []) =
          Inl \<lparr>statusCode = 401,
               sent = Some (JObj [(''message'', JStr ''Not authorized, token failed''),
                                  (''error'', JStr m)])\<rparr>)"
proof -
  have none: "\<not> (\<exists>h. authorization (request None 10 []) = Some h \<and> startsWith h ''Bearer'')"
    by (simp add: request_def)
  have a: "protect env0 db0 (request None 10 [])
     = Inl \<lparr>statusCode = 401, sent = Some (message_json ''Not authorized, no token'')\<rparr>"
    using auth_guard [THEN conjunct1, of env0 db0 "request None 10 []"] none by blast
  have hyp: "authorization (request (Some ''Bearer tokA'') 10 []) = Some (''Bearer '' @ ''tokA'') \<and>
        ''tokA'' \<noteq> [] \<and> CHR '' '' \<notin> set ''tokA'' \<and> jwt_verify env0 ''tokA'' = Inr 1 \<and>
        User_findById db0 1 = Some ann"
    by (simp add: request_def env0_def User_findById_def db0_def ann_def)
  have b: "protect env0 db0 (request (Some ''Bearer tokA'') 10 []) = Inr (select_no_password ann)"
    using auth_guard [THEN conjunct2, THEN conjunct2, THEN conjunct2, THEN conjunct1,
                      rule_format, OF hyp] .
  have c: "protected env0 db0 (request (Some ''Bearer tokA'') 10 [])
       (delete_post env0 db0 (request (Some ''Bearer tokA'') 10 []))
     = delete_post env0 db0 (request (Some ''Bearer tokA'') 10 []) (select_no_password ann)"
    using auth_guard [THEN conjunct2, THEN conjunct2, THEN conjunct1, rule_format, OF b]
    by (rule conjunct1)
  have hyp2: "authorization (request (Some ''BearerX tokB'') 10 []) = Some ''BearerX tokB'' \<and>
        startsWith ''BearerX tokB'' ''Bearer'' \<and>
        element_at (split_js CHR '' '' ''BearerX tokB'') 1 = Some ''tokB'' \<and> ''tokB'' \<noteq> [] \<and>
        jwt_verify env0 ''tokB'' = Inr 2 \<and> User_findById db0 2 = Some bob"
    by (simp add: request_def env0_def User_findById_def db0_def ann_def bob_def startsWith_def)
  have d: "protect env0 db0 (request (Some ''BearerX tokB'') 10 []) = Inr (select_no_password bob)"
    using auth_guard [THEN conjunct2, THEN conjunct2, THEN conjunct2, THEN conjunct2,
                      THEN conjunct1, rule_format, OF hyp2] .
  have hyp3: "authorization (request (Some ''Bearer nonsense'') 10 []) = Some ''Bearer nonsense'' \<and>
        startsWith ''Bearer nonsense'' ''Bearer'' \<and>
        (\<nexists>tok i su. element_at (split_js CHR '' '' ''Bearer nonsense'') 1 = Some tok \<and>
            tok \<noteq> [] \<and> jwt_verify env0 tok = Inr i \<and> User_findById db0 i = Some su)"
    by (simp add: request_def env0_def startsWith_def)
  have f: "\<exists>m. protect env0 db0 (request (Some ''Bearer nonsense'') 10 []) =
          Inl \<lparr>statusCode = 401,
               sent = Some (JObj [(''message'', JStr ''Not authorized, token failed''),
                                  (''error'', JStr m)])\<rparr>"
    using auth_guard [THEN conjunct2, THEN conjunct2, THEN conjunct2, THEN conjunct2,
                      THEN conjunct2, rule_format, OF hyp3] .
  from a b c d f show ?thesis by blast
qed

section \<open>The upload filter\<close>

lemma occurs_in_iff: "occurs_in p s \<longleftrightarrow> (\<exists>a b. s = a @ p @ b)"
proof (induction s)
  case Nil
  show ?case by auto
next
  case (Cons x xs)
  show ?case
  proof
    assume "occurs_in p (x # xs)"
    then consider "startsWith (x # xs) p" | "occurs_in p xs" by auto
    then show "\<exists>a b. x # xs = a @ p @ b"
    proof cases
      case 1
      then have "x # xs = [] @ p @ drop (length p) (x # xs)"
        unfolding startsWith_def by (metis append_Nil append_take_drop_id)
      then show ?thesis by blast
    next
      case 2
      with Cons obtain a b where "xs = a @ p @ b" by blast
      then have "x # xs = (x # a) @ p @ b" by simp
      then show ?thesis by blast
    qed
  next
    assume "\<exists>a b. x # xs = a @ p @ b"
    then obtain a b where ab: "x # xs = a @ p @ b" by blast
    show "occurs_in p (x # xs)"
    proof (cases a)
      case Nil
      with ab have "startsWith (x # xs) p" by (simp add: startsWith_def)
      then show ?thesis by simp
    next
      case (Cons y ys)
      with ab have "xs = ys @ p @ b" by simp
      with Cons.IH have "occurs_in p xs" by blast
      then show ?thesis by simp
    qed
  qed
qed

text \<open>
  Claim C3, as stated: a file is accepted only when its extension is one of jpeg, jpg,
  png and its content type is in the same list. It fails: \<open>shell.pngx\<close> with the
  content type \<open>text/x-jpgish\<close> is accepted by both filters, although its extension
  \<open>.pngx\<close> is outside the list.
\<close>

theorem upload_filter_counterexample:
  "post_fileFilter \<lparr>originalname = ''shell.pngx'', mimetype = ''text/x-jpgish'', file_size = 10\<rparr> = Inr True \<and>
   user_fileFilter \<lparr>originalname = ''shell.pngx'', mimetype = ''text/x-jpgish'', file_size = 10\<rparr> = Inr True \<and>
   toLowerCase (extname (originalname \<lparr>originalname = ''shell.pngx'', mimetype = ''text/x-jpgish'', file_size = 10\<rparr>)) = ''.pngx'' \<and>
   ''.pngx'' \<notin> set [''.jpeg'', ''.jpg'', ''.png'']"
  by code_simp

text \<open>
  Claim C3, amended. Both filters (post images and profile pictures) decide alike: a
  file is accepted exactly when its lower-cased extension contains one of the words
  jpeg, jpg, png and its content type, as sent, contains one of them too; otherwise it
  is refused with \<open>Error: Images only!\<close>. So a file whose extension is \<open>.jpeg\<close>,
  \<open>.jpg\<close> or \<open>.png\<close> in any letter case and whose content type is \<open>image/jpeg\<close>,
  \<open>image/jpg\<close> or \<open>image/png\<close> is accepted, and a file whose extension is \<open>.gif\<close>
  in any letter case is refused.
\<close>

theorem upload_filter:
  "(post_fileFilter f = Inr True \<longleftrightarrow>
      filetypes_test (toLowerCase (extname (originalname f))) \<and> filetypes_test (mimetype f))
   \<and> (post_fileFilter f = Inr True \<or> post_fileFilter f = Inl ''Error: Images only!'')
   \<and> user_fileFilter f = post_fileFilter f
   \<and> (filetypes_test s \<longleftrightarrow>
        (\<exists>a b. s = a @ ''jpeg'' @ b \<or> s = a @ ''jpg'' @ b \<or> s = a @ ''png'' @ b))
   \<and> (toLowerCase (extname (originalname f)) \<in> set [''.jpeg'', ''.jpg'', ''.png''] \<and>
       mimetype f \<in> set [''image/jpeg'', ''image/jpg'', ''image/png'']
         \<longrightarrow> post_fileFilter f = Inr True)
   \<and> (toLowerCase (extname (originalname f)) = ''.gif''
         \<longrightarrow> post_fileFilter f = Inl ''Error: Images only!'')"
proof (intro conjI impI)
  show "post_fileFilter f = Inr True \<longleftrightarrow>
      filetypes_test (toLowerCase (extname (originalname f))) \<and> filetypes_test (mimetype f)"
    by (simp add: post_fileFilter_def Let_def)
  show "post_fileFilter f = Inr True \<or> post_fileFilter f = Inl ''Error: Images only!''"
    by (simp add: post_fileFilter_def Let_def)
  show "user_fileFilter f = post_fileFilter f"
    by (simp add: post_fileFilter_def user_fileFilter_def)
  show "filetypes_test s \<longleftrightarrow>
        (\<exists>a b. s = a @ ''jpeg'' @ b \<or> s = a @ ''jpg'' @ b \<or> s = a @ ''png'' @ b)"
    unfolding filetypes_test_def occurs_in_iff by blast
next
  assume a: "toLowerCase (extname (originalname f)) \<in> set [''.jpeg'', ''.jpg'', ''.png''] \<and>
       mimetype f \<in> set [''image/jpeg'', ''image/jpg'', ''image/png'']"
  have "filetypes_test ''.jpeg''" "filetypes_test ''.jpg''" "filetypes_test ''.png''"
    "filetypes_test ''image/jpeg''" "filetypes_test ''image/jpg''" "filetypes_test ''image/png''"
    by code_simp+
  with a show "post_fileFilter f = Inr True"
    by (auto simp: post_fileFilter_def Let_def)
next
  assume "toLowerCase (extname (originalname f)) = ''.gif''"
  moreover have "\<not> filetypes_test ''.gif''" by code_simp
  ultimately show "post_fileFilter f = Inl ''Error: Images only!''"
    by (simp add: post_fileFilter_def Let_def)
qed

text \<open>An upper-case \<open>.PNG\<close> is accepted and a \<open>.gif\<close> is refused.\<close>

theorem upload_filter_witness:
  "post_fileFilter \<lparr>originalname = ''Cat.PNG'', mimetype = ''image/png'', file_size = 10\<rparr> = Inr True \<and>
   post_fileFilter \<lparr>originalname = ''cat.gif'', mimetype = ''image/png'', file_size = 10\<rparr> = Inl ''Error: Images only!''"
proof -
  have a: "toLowerCase (extname (originalname \<lparr>originalname = ''Cat.PNG'', mimetype = ''image/png'', file_size = 10\<rparr>)) \<in> set [''.jpeg'', ''.jpg'', ''.png''] \<and>
       mimetype \<lparr>originalname = ''Cat.PNG'', mimetype = ''image/png'', file_size = 10\<rparr> \<in> set [''image/jpeg'', ''image/jpg'', ''image/png'']"
    by code_simp
  have b: "toLowerCase (extname (originalname \<lparr>originalname = ''cat.gif'', mimetype = ''image/png'', file_size = 10\<rparr>)) = ''.gif''"
    by code_simp
  from upload_filter [THEN conjunct2, THEN conjunct2, THEN conjunct2, THEN conjunct2, THEN conjunct1, rule_format, OF a]
       upload_filter [THEN conjunct2, THEN conjunct2, THEN conjunct2, THEN conjunct2, THEN conjunct2, rule_format, OF b]
  show ?thesis by blast
qed

section \<open>No password in any response\<close>

lemma ref_clean: "\<not> has_field k (ref_json i)"
  by (simp add: ref_json_def)

lemma number_clean: "\<not> has_field k (number_json a)"
  by (simp add: number_json_def split: number.splits)

lemma populate_clean: "\<not> has_field ''password'' (populate_user d i)"
  by (simp add: populate_user_def ref_clean split: option.splits)

lemma comments_clean:
  "(\<And>i. \<not> has_field ''password'' (cu i)) \<Longrightarrow> \<not> has_field ''password'' (comments_json cu p)"
  by (auto simp: comments_json_def comment_json_def list_ex_iff split: option.splits)

lemma likes_clean: "\<not> has_field k (likes_json p)"
  by (auto simp: likes_json_def list_ex_iff ref_clean)

lemma post_clean:
  "(\<And>i. \<not> has_field ''password'' (au i)) \<Longrightarrow> (\<And>i. \<not> has_field ''password'' (cu i)) \<Longrightarrow>
   \<not> has_field ''password'' (post_json au cu p)"
  by (auto simp: post_json_def list_ex_iff comments_clean likes_clean ref_clean)

lemma user_clean: "\<not> has_field ''password'' (user_json (select_no_password u))"
  by (simp add: user_json_def select_no_password_def ref_clean)

lemma register_clean: "no_password (fst (register e d r))"
  by (auto simp: register_def register_try_def User_create_def no_password_def res_json_def
        res_status_def message_json_def ref_clean Let_def
      split: sum.splits option.splits prod.splits if_splits)

lemma login_clean: "no_password (fst (login e d r))"
  by (auto simp: login_def no_password_def res_json_def
        res_status_def message_json_def ref_clean Let_def
      split: sum.splits option.splits prod.splits if_splits)

lemma put_profile_clean: "no_password (fst (put_profile e d r u f))"
  by (auto simp: put_profile_def put_profile_try_def no_password_def res_json_def
        res_status_def message_json_def ref_clean Let_def
      split: sum.splits option.splits prod.splits if_splits)

lemma get_profile_clean: "no_password (fst (get_profile e d r))"
  by (auto simp: get_profile_def get_profile_try_def no_password_def res_json_def
        res_status_def message_json_def user_clean
      split: sum.splits option.splits prod.splits if_splits)

lemma create_post_clean: "no_password (fst (create_post e d r u f))"
  by (auto simp: create_post_def create_post_try_def no_password_def res_json_def
        res_status_def message_json_def post_clean populate_clean ref_clean list_ex_iff Let_def
      split: sum.splits option.splits prod.splits if_splits)

lemma list_posts_clean: "no_password (fst (list_posts e d r))"
  by (auto simp: list_posts_def list_posts_try_def no_password_def res_json_def
        res_status_def message_json_def post_clean populate_clean ref_clean number_clean
        list_ex_iff Let_def
      split: sum.splits option.splits prod.splits if_splits)

lemma get_post_clean: "no_password (fst (get_post e d r))"
  by (auto simp: get_post_def get_post_try_def no_password_def res_json_def
        res_status_def message_json_def post_clean populate_clean
      split: sum.splits option.splits prod.splits if_splits)

lemma put_post_clean: "no_password (fst (put_post e d r u f))"
  by (auto simp: put_post_def put_post_try_def no_password_def res_json_def
        res_status_def message_json_def post_clean ref_clean Let_def
      split: sum.splits option.splits prod.splits if_splits)

lemma delete_post_clean: "no_password (fst (delete_post e d r u))"
  by (auto simp: delete_post_def Post_findByIdAndDelete_def no_password_def res_json_def
        res_status_def message_json_def ref_clean
      split: sum.splits option.splits prod.splits if_splits)

lemma add_comment_clean: "no_password (fst (add_comment e d r u))"
  by (auto simp: add_comment_def add_comment_try_def no_password_def res_json_def
        res_status_def message_json_def comments_clean populate_clean Let_def
      split: sum.splits option.splits prod.splits if_splits)

lemma like_post_clean: "no_password (fst (like_post e d r u))"
  by (auto simp: like_post_def like_post_try_def no_password_def res_json_def
        res_status_def message_json_def likes_clean Let_def
      split: sum.splits option.splits prod.splits if_splits)

lemma protect_clean: "protect e d r = Inl resp \<Longrightarrow> no_password resp"
  by (auto simp: protect_def no_password_def res_json_def res_status_def message_json_def
      split: sum.splits option.splits if_splits)

lemma error_middleware_clean: "no_password (error_middleware e t)"
  by (auto simp: error_middleware_def no_password_def res_json_def split: thrown.splits)

lemma protected_clean:
  "(\<And>u. no_password (fst (h u))) \<Longrightarrow> no_password (fst (protected e d r h))"
  by (auto simp: protected_def protect_clean split: sum.splits)

lemma uploading_clean:
  "(\<And>f. no_password (fst (h f))) \<Longrightarrow> no_password (fst (uploading e d r pre ff h))"
  by (auto simp: uploading_def error_middleware_clean split: sum.splits)

lemma protect_loads_no_password: "protect e d r = Inr u \<Longrightarrow> password u = None"
  by (auto simp: protect_def protect_try_def select_no_password_def Let_def
      split: sum.splits option.splits if_splits)

lemma app_clean: "no_password (fst (app e d rt r))"
  by (cases rt)
     (auto intro!: protected_clean uploading_clean
           simp: register_clean login_clean put_profile_clean get_profile_clean
                 create_post_clean list_posts_clean get_post_clean put_post_clean
                 delete_post_clean add_comment_clean like_post_clean)

text \<open>
  Claim C5. Whatever the route and the request, the response of the application has a
  body, and that body has no \<open>password\<close> field at any depth; and the user that the Auth
  Guard hands to a handler was loaded without its password.
\<close>

theorem responses_without_password:
  "(\<exists>j. sent (fst (app e d rt r)) = Some j \<and> \<not> has_field ''password'' j) \<and>
   (\<forall>u. protect e d r = Inr u \<longrightarrow> password u = None)"
proof
  from app_clean [of e d rt r]
  show "\<exists>j. sent (fst (app e d rt r)) = Some j \<and> \<not> has_field ''password'' j"
    by (auto simp: no_password_def split: option.splits)
  show "\<forall>u. protect e d r = Inr u \<longrightarrow> password u = None"
    by (blast dest: protect_loads_no_password)
qed

text \<open>Ann's stored document has a password field; her profile as served has none, and
  neither has the user the guard loads for her token.\<close>

theorem responses_without_password_witness:
  "has_field ''password'' (user_json ann) \<and>
   User_findById db0 (params_id (request (Some ''Bearer tokA'') 1 [])) = Some ann \<and>
   (\<exists>j. sent (fst (app env0 db0 GET_users_profile_id (request (Some ''Bearer tokA'') 1 []))) = Some j \<and>
        \<not> has_field ''password'' j) \<and>
   password (select_no_password ann) = None"
proof -
  have a: "has_field ''password'' (user_json ann)" by code_simp
  have b: "User_findById db0 (params_id (request (Some ''Bearer tokA'') 1 [])) = Some ann"
    by code_simp
  have p: "protect env0 db0 (request (Some ''Bearer tokA'') 1 []) = Inr (select_no_password ann)"
    by code_simp
  note t = responses_without_password [of env0 db0 GET_users_profile_id "request (Some ''Bearer tokA'') 1 []"]
  from t [THEN conjunct2, rule_format, OF p] t [THEN conjunct1] a b show ?thesis by blast
qed

section \<open>Partial updates\<close>

text \<open>Trimming removes ASCII and other white space at both ends, and nothing inside or
  of another character.\<close>

lemma trim_examples:
  "trim ''  x y  '' = ''x y''"
  "trim ([CHR 0xC2, CHR 0xA0, CHR 0x09] @ ''x'' @ [CHR 0xE2, CHR 0x80, CHR 0x83, CHR 0x0A]) = ''x''"
  "trim (''x'' @ [CHR 0xC3, CHR 0xA0]) = ''x'' @ [CHR 0xC3, CHR 0xA0]"
  "map trim (split_js CHR '','' (''x'' @ [CHR 0xC2, CHR 0xA0] @ '', y'')) = [''x'', ''y'']"
  by code_simp+

lemma error_middleware_status: "statusCode (error_middleware e t) = 500"
  by (simp add: error_middleware_def res_json_def res_status_def res0_def split: thrown.splits)

lemma uploading_cases:
  "uploading e d r pre ff h = (resp, d') \<Longrightarrow>
   (\<exists>filename. upload_single pre ff r = Inr filename \<and> h filename = (resp, d')) \<or>
   (statusCode resp = 500 \<and> d' = d)"
  by (auto simp: uploading_def error_middleware_status split: sum.splits)

lemma assign_post_fields:
  "title (assign_post r filename p) =
     (case body r ''title'' of None \<Rightarrow> title p | Some v \<Rightarrow> if v \<noteq> [] then v else title p)"
  "content (assign_post r filename p) =
     (case body r ''content'' of None \<Rightarrow> content p | Some v \<Rightarrow> if v \<noteq> [] then v else content p)"
  "tags (assign_post r filename p) =
     (case body r ''tags'' of None \<Rightarrow> tags p
      | Some v \<Rightarrow> if v \<noteq> [] then map trim (split_js CHR '','' v) else tags p)"
  "image_url (assign_post r filename p) =
     (case filename of None \<Rightarrow> image_url p | Some f \<Rightarrow> ''/uploads/posts/'' @ f)"
  "pid (assign_post r filename p) = pid p"
  "author (assign_post r filename p) = author p"
  "comments (assign_post r filename p) = comments p"
  "likes (assign_post r filename p) = likes p"
  "createdAt (assign_post r filename p) = createdAt p"
  by (simp_all add: assign_post_def or_else_def Let_def split: option.splits)

lemma assign_user_fields:
  "username (assign_user e r filename u) =
     (case body r ''username'' of None \<Rightarrow> username u | Some v \<Rightarrow> if v \<noteq> [] then v else username u)"
  "email (assign_user e r filename u) =
     (case body r ''email'' of None \<Rightarrow> email u | Some v \<Rightarrow> if v \<noteq> [] then v else email u)"
  "bio (assign_user e r filename u) =
     (case body r ''bio'' of None \<Rightarrow> bio u | Some v \<Rightarrow> if v \<noteq> [] then v else bio u)"
  "profilePicture (assign_user e r filename u) =
     (case filename of None \<Rightarrow> profilePicture u | Some f \<Rightarrow> ''/uploads/profiles/'' @ f)"
  "password (assign_user e r filename u) =
     (case body r ''password'' of None \<Rightarrow> password u
      | Some v \<Rightarrow> if v \<noteq> [] then Some (hash_password e v) else password u)"
  "uid (assign_user e r filename u) = uid u"
  by (simp_all add: assign_user_def or_else_def Let_def split: option.splits)

lemma put_post_ok:
  assumes "put_post e d r u filename = (resp, d')" and "statusCode resp = 200"
  shows "\<exists>p. Post_findById d (params_id r) = Some p \<and> author p = uid u \<and>
           Post_findById d' (params_id r) = Some (assign_post r filename p) \<and>
           sent resp = Some (post_json ref_json ref_json (assign_post r filename p))"
proof (cases "Post_findById d (params_id r)")
  case None
  with assms show ?thesis
    by (auto simp: put_post_def put_post_try_def res_json_def res_status_def res0_def)
next
  case (Some p)
  show ?thesis
  proof (cases "author p = uid u")
    case False
    with Some assms show ?thesis
      by (auto simp: put_post_def put_post_try_def res_json_def res_status_def res0_def)
  next
    case True
    show ?thesis
    proof (cases "save_post e d (assign_post r filename p)")
      case (Inl err)
      with Some True assms show ?thesis
        by (auto simp: put_post_def put_post_try_def res_json_def res_status_def res0_def Let_def)
    next
      case (Inr d2)
      with Some True assms have "d' = d2"
        "sent resp = Some (post_json ref_json ref_json (assign_post r filename p))"
        by (auto simp: put_post_def put_post_try_def res_json_def res_status_def res0_def Let_def)
      moreover from save_post_find [OF Some _ Inr]
      have "Post_findById d2 (params_id r) = Some (assign_post r filename p)"
        by (simp add: assign_post_fields)
      ultimately show ?thesis using Some True by simp
    qed
  qed
qed

lemma put_profile_ok:
  assumes "put_profile e d r me filename = (resp, d')" and "statusCode resp = 200"
  shows "\<exists>u. User_findById d (uid me) = Some u \<and>
           User_findById d' (uid me) = Some (assign_user e r filename u)"
proof (cases "User_findById d (uid me)")
  case None
  with assms show ?thesis
    by (auto simp: put_profile_def put_profile_try_def res_json_def res_status_def res0_def)
next
  case (Some u)
  show ?thesis
  proof (cases "save_user e d (assign_user e r filename u)")
    case (Inl err)
    with Some assms show ?thesis
      by (auto simp: put_profile_def put_profile_try_def res_json_def res_status_def res0_def Let_def)
  next
    case (Inr d2)
    with Some assms have "d' = d2"
      by (auto simp: put_profile_def put_profile_try_def res_json_def res_status_def res0_def Let_def)
    moreover from save_user_find [OF Some _ Inr]
    have "User_findById d2 (uid me) = Some (assign_user e r filename u)"
      by (simp add: assign_user_fields)
    ultimately show ?thesis using Some by simp
  qed
qed

text \<open>
  Claim C6, as stated: each field present in the request body overwrites the stored
  field. It fails for a field that is present and empty: Ann sends the title \<open>''\<close>
  for her post, the update succeeds, and the stored title is still \<open>T\<close>.
\<close>

theorem partial_update_counterexample:
  "body (request (Some ''Bearer tokA'') 10 [(''title'', [])]) ''title'' = Some [] \<and>
   stored_title db0 10 = Some ''T'' \<and>
   statusCode (fst (app env0 db0 PUT_posts_id (request (Some ''Bearer tokA'') 10 [(''title'', [])]))) = 200 \<and>
   stored_title (snd (app env0 db0 PUT_posts_id (request (Some ''Bearer tokA'') 10 [(''title'', [])]))) 10
     = Some ''T''"
  by code_simp

text \<open>
  Claim C6, amended. After a successful update of a post by its author, and after a
  successful profile update, each text field that the request carries with a non-empty
  value holds that value (the tags hold the comma-separated pieces of theirs, trimmed;
  the password holds the hash of its value), and each field that the request does not
  carry, or carries empty, holds what was stored before; so no field of the request
  clears a stored field. The image and the profile picture hold the address of the
  uploaded file when there is one and the stored value otherwise. The post's id,
  author, comments, likes and creation time, and the user's id, are as before.
\<close>

theorem partial_update:
  "(app e d PUT_posts_id r = (resp, d') \<and> statusCode resp = 200 \<longrightarrow>
      (\<exists>u filename p p'.
         protect e d r = Inr u \<and> upload_single ''post'' post_fileFilter r = Inr filename \<and>
         Post_findById d (params_id r) = Some p \<and> author p = uid u \<and>
         Post_findById d' (params_id r) = Some p' \<and>
         title p' = (case body r ''title'' of None \<Rightarrow> title p
                     | Some v \<Rightarrow> if v \<noteq> [] then v else title p) \<and>
         content p' = (case body r ''content'' of None \<Rightarrow> content p
                       | Some v \<Rightarrow> if v \<noteq> [] then v else content p) \<and>
         tags p' = (case body r ''tags'' of None \<Rightarrow> tags p
                    | Some v \<Rightarrow> if v \<noteq> [] then map trim (split_js CHR '','' v) else tags p) \<and>
         image_url p' = (case filename of None \<Rightarrow> image_url p
                         | Some f \<Rightarrow> ''/uploads/posts/'' @ f) \<and>
         pid p' = pid p \<and> author p' = author p \<and> comments p' = comments p \<and>
         likes p' = likes p \<and> createdAt p' = createdAt p))
   \<and> (app e d PUT_users_profile r = (resp, d') \<and> statusCode resp = 200 \<longrightarrow>
      (\<exists>me filename u u'.
         protect e d r = Inr me \<and> upload_single ''user'' user_fileFilter r = Inr filename \<and>
         User_findById d (uid me) = Some u \<and> User_findById d' (uid me) = Some u' \<and>
         username u' = (case body r ''username'' of None \<Rightarrow> username u
                        | Some v \<Rightarrow> if v \<noteq> [] then v else username u) \<and>
         email u' = (case body r ''email'' of None \<Rightarrow> email u
                     | Some v \<Rightarrow> if v \<noteq> [] then v else email u) \<and>
         bio u' = (case body r ''bio'' of None \<Rightarrow> bio u
                   | Some v \<Rightarrow> if v \<noteq> [] then v else bio u) \<and>
         profilePicture u' = (case filename of None \<Rightarrow> profilePicture u
                              | Some f \<Rightarrow> ''/uploads/profiles/'' @ f) \<and>
         password u' = (case body r ''password'' of None \<Rightarrow> password u
                        | Some v \<Rightarrow> if v \<noteq> [] then Some (hash_password e v) else password u) \<and>
         uid u' = uid u))"
proof (intro conjI impI)
  assume a: "app e d PUT_posts_id r = (resp, d') \<and> statusCode resp = 200"
  then have "protected e d r (\<lambda>u. uploading e d r ''post'' post_fileFilter (put_post e d r u))
               = (resp, d')" by simp
  from protected_cases [OF this] a obtain u where
    u: "protect e d r = Inr u" and
    "uploading e d r ''post'' post_fileFilter (put_post e d r u) = (resp, d')" by auto
  from uploading_cases [OF this(2)] a obtain filename where
    f: "upload_single ''post'' post_fileFilter r = Inr filename" and
    "put_post e d r u filename = (resp, d')" by auto
  from put_post_ok [OF this(2)] a obtain p where
    "Post_findById d (params_id r) = Some p" "author p = uid u"
    "Post_findById d' (params_id r) = Some (assign_post r filename p)" by auto
  with u f show "\<exists>u filename p p'.
         protect e d r = Inr u \<and> upload_single ''post'' post_fileFilter r = Inr filename \<and>
         Post_findById d (params_id r) = Some p \<and> author p = uid u \<and>
         Post_findById d' (params_id r) = Some p' \<and>
         title p' = (case body r ''title'' of None \<Rightarrow> title p
                     | Some v \<Rightarrow> if v \<noteq> [] then v else title p) \<and>
         content p' = (case body r ''content'' of None \<Rightarrow> content p
                       | Some v \<Rightarrow> if v \<noteq> [] then v else content p) \<and>
         tags p' = (case body r ''tags'' of None \<Rightarrow> tags p
                    | Some v \<Rightarrow> if v \<noteq> [] then map trim (split_js CHR '','' v) else tags p) \<and>
         image_url p' = (case filename of None \<Rightarrow> image_url p
                         | Some f \<Rightarrow> ''/uploads/posts/'' @ f) \<and>
         pid p' = pid p \<and> author p' = author p \<and> comments p' = comments p \<and>
         likes p' = likes p \<and> createdAt p' = createdAt p"
    by (simp add: assign_post_fields)
next
  assume a: "app e d PUT_users_profile r = (resp, d') \<and> statusCode resp = 200"
  then have "protected e d r (\<lambda>u. uploading e d r ''user'' user_fileFilter (put_profile e d r u))
               = (resp, d')" by simp
  from protected_cases [OF this] a obtain me where
    u: "protect e d r = Inr me" and
    "uploading e d r ''user'' user_fileFilter (put_profile e d r me) = (resp, d')" by auto
  from uploading_cases [OF this(2)] a obtain filename where
    f: "upload_single ''user'' user_fileFilter r = Inr filename" and
    "put_profile e d r me filename = (resp, d')" by auto
  from put_profile_ok [OF this(2)] a obtain su where
    "User_findById d (uid me) = Some su"
    "User_findById d' (uid me) = Some (assign_user e r filename su)" by auto
  with u f show "\<exists>me filename u u'.
         protect e d r = Inr me \<and> upload_single ''user'' user_fileFilter r = Inr filename \<and>
         User_findById d (uid me) = Some u \<and> User_findById d' (uid me) = Some u' \<and>
         username u' = (case body r ''username'' of None \<Rightarrow> username u
                        | Some v \<Rightarrow> if v \<noteq> [] then v else username u) \<and>
         email u' = (case body r ''email'' of None \<Rightarrow> email u
                     | Some v \<Rightarrow> if v \<noteq> [] then v else email u) \<and>
         bio u' = (case body r ''bio'' of None \<Rightarrow> bio u
                   | Some v \<Rightarrow> if v \<noteq> [] then v else bio u) \<and>
         profilePicture u' = (case filename of None \<Rightarrow> profilePicture u
                              | Some f \<Rightarrow> ''/uploads/profiles/'' @ f) \<and>
         password u' = (case body r ''password'' of None \<Rightarrow> password u
                        | Some v \<Rightarrow> if v \<noteq> [] then Some (hash_password e v) else password u) \<and>
         uid u' = uid u"
    by (simp add: assign_user_fields)
qed

text \<open>Ann retitles her post and sends the tags \<open>x\<close>, a no-break space, a comma, a space
  and \<open>y\<close>; and she changes her bio and password.\<close>

theorem partial_update_witness:
  "(\<exists>p'. Post_findById
           (snd (app env0 db0 PUT_posts_id
                   (request (Some ''Bearer tokA'') 10
                      [(''title'', ''New''), (''tags'', ''x'' @ [CHR 0xC2, CHR 0xA0] @ '', y'')])))
           10 = Some p' \<and>
         title p' = ''New'' \<and> content p' = ''C'' \<and> tags p' = [''x'', ''y''] \<and>
         image_url p' = []) \<and>
   (\<exists>u'. User_findById
           (snd (app env0 db0 PUT_users_profile
                   (request (Some ''Bearer tokA'') 0 [(''bio'', ''hi''), (''password'', ''pw'')])))
           1 = Some u' \<and>
         username u' = ''ann'' \<and> email u' = ''ann@example.org'' \<and> bio u' = ''hi'' \<and>
         password u' = Some ''#pw'')"
proof -
  let ?r1 = "request (Some ''Bearer tokA'') 10
               [(''title'', ''New''), (''tags'', ''x'' @ [CHR 0xC2, CHR 0xA0] @ '', y'')]"
  let ?r2 = "request (Some ''Bearer tokA'') 0 [(''bio'', ''hi''), (''password'', ''pw'')]"
  have s1: "statusCode (fst (app env0 db0 PUT_posts_id ?r1)) = 200" by code_simp
  have s2: "statusCode (fst (app env0 db0 PUT_users_profile ?r2)) = 200" by code_simp
  have h1: "app env0 db0 PUT_posts_id ?r1
      = (fst (app env0 db0 PUT_posts_id ?r1), snd (app env0 db0 PUT_posts_id ?r1))
    \<and> statusCode (fst (app env0 db0 PUT_posts_id ?r1)) = 200"
    using s1 by simp
  have h2: "app env0 db0 PUT_users_profile ?r2
      = (fst (app env0 db0 PUT_users_profile ?r2), snd (app env0 db0 PUT_users_profile ?r2))
    \<and> statusCode (fst (app env0 db0 PUT_users_profile ?r2)) = 200"
    using s2 by simp
  have f1: "Post_findById db0 10 = Some post10" by code_simp
  have g1: "protect env0 db0 ?r2 = Inr (select_no_password ann)" by code_simp
  have f2: "User_findById db0 1 = Some ann" by code_simp
  have up1: "upload_single ''post'' post_fileFilter ?r1 = Inr None" by code_simp
  have b1: "body ?r1 ''title'' = Some ''New''" "body ?r1 ''content'' = None"
    "body ?r1 ''tags'' = Some (''x'' @ [CHR 0xC2, CHR 0xA0] @ '', y'')" "params_id ?r1 = 10"
    by (simp_all add: request_def)
  have tg: "map trim (split_js CHR '','' (''x'' @ [CHR 0xC2, CHR 0xA0] @ '', y'')) = [''x'', ''y'']"
    by code_simp
  have b2: "body ?r2 ''username'' = None" "body ?r2 ''email'' = None"
    "body ?r2 ''bio'' = Some ''hi''" "body ?r2 ''password'' = Some ''pw''"
    by (simp_all add: request_def)
  from partial_update [THEN conjunct1, rule_format, OF h1]
  obtain u filename p p' where
    1: "upload_single ''post'' post_fileFilter ?r1 = Inr filename"
       "Post_findById db0 (params_id ?r1) = Some p"
       "Post_findById (snd (app env0 db0 PUT_posts_id ?r1)) (params_id ?r1) = Some p'"
       "title p' = (case body ?r1 ''title'' of None \<Rightarrow> title p
                     | Some v \<Rightarrow> if v \<noteq> [] then v else title p)"
       "content p' = (case body ?r1 ''content'' of None \<Rightarrow> content p
                       | Some v \<Rightarrow> if v \<noteq> [] then v else content p)"
       "tags p' = (case body ?r1 ''tags'' of None \<Rightarrow> tags p
                    | Some v \<Rightarrow> if v \<noteq> [] then map trim (split_js CHR '','' v) else tags p)"
       "image_url p' = (case filename of None \<Rightarrow> image_url p
                         | Some f \<Rightarrow> ''/uploads/posts/'' @ f)"
    by blast
  from 1(2) f1 b1(4) have p: "p = post10" by simp
  from 1(1) up1 have fn: "filename = None" by simp
  have a: "\<exists>p'. Post_findById (snd (app env0 db0 PUT_posts_id ?r1)) 10 = Some p' \<and>
         title p' = ''New'' \<and> content p' = ''C'' \<and> tags p' = [''x'', ''y''] \<and>
         image_url p' = []"
    using 1(3-7) tg unfolding b1 p fn by (simp add: post10_def)
  from partial_update [THEN conjunct2, rule_format, OF h2]
  obtain me filename2 su su' where
    2: "protect env0 db0 ?r2 = Inr me"
       "User_findById db0 (uid me) = Some su"
       "User_findById (snd (app env0 db0 PUT_users_profile ?r2)) (uid me) = Some su'"
       "username su' = (case body ?r2 ''username'' of None \<Rightarrow> username su
                        | Some v \<Rightarrow> if v \<noteq> [] then v else username su)"
       "email su' = (case body ?r2 ''email'' of None \<Rightarrow> email su
                     | Some v \<Rightarrow> if v \<noteq> [] then v else email su)"
       "bio su' = (case body ?r2 ''bio'' of None \<Rightarrow> bio su
                   | Some v \<Rightarrow> if v \<noteq> [] then v else bio su)"
       "password su' = (case body ?r2 ''password'' of None \<Rightarrow> password su
                        | Some v \<Rightarrow> if v \<noteq> [] then Some (hash_password env0 v) else password su)"
    by blast
  from 2(1) g1 have "me = select_no_password ann" by simp
  then have me: "uid me = 1" by (simp add: select_no_password_def ann_def)
  from 2(2) f2 me have su: "su = ann" by simp
  have c: "\<exists>u'. User_findById (snd (app env0 db0 PUT_users_profile ?r2)) 1 = Some u' \<and>
         username u' = ''ann'' \<and> email u' = ''ann@example.org'' \<and> bio u' = ''hi'' \<and>
         password u' = Some ''#pw''"
    using 2(3-7) unfolding b2 me su by (simp add: ann_def env0_def)
  from a c show ?thesis by blast
qed

section \<open>Pagination\<close>

















end
